theory Spec2Isabelle
  imports Main
begin

section \<open>The collaborators of the ConnectionManager\<close>

text \<open>
  \<^verbatim>\<open>src/connection/connection_manager.js\<close> drives four collaborators whose code is
  not part of the file: \<^verbatim>\<open>Pusher.Timer\<close>, the connection strategy with the attempt
  handle it returns (the "runner"), \<^verbatim>\<open>Pusher.Network\<close> and the Connection object
  carried by a handshake. Each of them is kept in the world as a store that records
  what the manager did to it; the manager's own fields refer to timers and runners by
  their position in the store, which plays the role of the JavaScript object
  reference. A new object is appended, so it never aliases an older one.
\<close>

datatype error = TypeError

datatype timer_status = Pending | Fired | Aborted

text \<open>The four closures that the manager hands to \<^verbatim>\<open>new Pusher.Timer\<close>.\<close>

datatype timer_callback =
    RetryCallback
  | UnavailableCallback
  | ActivityCallback
  | PongCallback

record timer =
  delay :: nat
  callback :: timer_callback
  tstatus :: timer_status

datatype runner_status = InFlight | Delivered | AbortedRunner

record attempt =
  retry_count :: nat
  rstatus :: runner_status

text \<open>
  Modelled from the spec: the Connection class is not in the source file. The spec
  gives \<^verbatim>\<open>send(rawData) -> bool\<close>, \<^verbatim>\<open>send_event(name, data, channel?) -> bool\<close>,
  \<^verbatim>\<open>close()\<close>, \<^verbatim>\<open>supportsPing() -> bool\<close>, \<^verbatim>\<open>bind\<close> and \<^verbatim>\<open>unbind\<close>, and an \<^verbatim>\<open>id\<close>.
  \<open>conn_ref\<close> is the object's identity, \<open>conn_id\<close> the socket id it exposes as
  \<^verbatim>\<open>connection.id\<close>; \<open>conn_send\<close> and \<open>conn_send_event\<close> are the booleans its own
  \<^verbatim>\<open>send\<close> and \<^verbatim>\<open>send_event\<close> return.
\<close>

record connection_obj =
  conn_ref :: nat
  conn_id :: string
  supportsPing :: bool
  conn_send :: "string \<Rightarrow> bool"
  conn_send_event :: "string \<Rightarrow> string \<Rightarrow> string option \<Rightarrow> bool"

text \<open>Calls the manager makes on a Connection, in the order it makes them.\<close>

datatype conn_call =
    CallSend nat string
  | CallSendEvent nat string string "string option"
  | CallClose nat

record handshake =
  action :: string
  hs_connection :: "connection_obj option"

record strategy_obj =
  isSupported :: bool
  strategy_encrypted :: bool

text \<open>
  The options object. \<^verbatim>\<open>getStrategy\<close> receives the key, the timeline and the encrypted
  flag; key and timeline are fixed at construction, so it is a function of the flag.
\<close>

record options_obj =
  opt_encrypted :: bool
  unavailableTimeout :: nat
  activityTimeout :: nat
  pongTimeout :: nat
  getStrategy :: "bool \<Rightarrow> strategy_obj"

text \<open>What an emitted event carries.\<close>

datatype payload =
    Undefined
  | StateChange string string
  | Message string
  | WebSocketError string

section \<open>The manager and its world\<close>

text \<open>
  The first group of fields are the fields of the ConnectionManager object; the second
  group is the state of the collaborators and the record of what the manager emitted.
  \<open>events\<close> lists the emitted events; \<open>observed\<close> lists, for each of them, what a
  subscriber that is called with the event finds in the manager at that moment: its
  state, and whether it holds a Connection.
\<close>

record world =
  options :: options_obj
  state :: string
  connection :: "connection_obj option"
  encrypted :: bool
  strategy :: strategy_obj
  runner :: "nat option"
  retryTimer :: "nat option"
  unavailableTimer :: "nat option"
  activityTimer :: "nat option"
  socket_id :: "string option"
  timelineSender :: "bool option"
  timers :: "timer list"
  runners :: "attempt list"
  online :: "bool option"
  events :: "(string \<times> payload) list"
  observed :: "(string \<times> bool) list"
  calls :: "conn_call list"
  bound :: "nat set"
  debug_log :: "(string \<times> string) list"
  timeline_sends :: nat

type_synonym result = "error option \<times> world"

subsection \<open>Timers and attempts\<close>

text \<open>
  Modelled from the spec: \<^verbatim>\<open>Pusher.Timer\<close> is not in the source file. The spec gives
  \<^verbatim>\<open>construct(delayMillis, callback)\<close> and \<^verbatim>\<open>ensureAborted()\<close>, "safe to call multiple
  times or after firing": a new timer is pending, aborting a pending timer cancels it,
  and aborting any other timer does nothing.
\<close>

definition new_Timer :: "nat \<Rightarrow> timer_callback \<Rightarrow> world \<Rightarrow> nat \<times> world" where
  "new_Timer d cb w =
     (length (timers w),
      w\<lparr>timers := timers w @ [\<lparr>delay = d, callback = cb, tstatus = Pending\<rparr>]\<rparr>)"

definition ensureAborted :: "nat \<Rightarrow> world \<Rightarrow> world" where
  "ensureAborted i w =
     (if i < length (timers w) \<and> tstatus (timers w ! i) = Pending
      then w\<lparr>timers := (timers w)[i := (timers w ! i)\<lparr>tstatus := Aborted\<rparr>]\<rparr>
      else w)"

text \<open>
  Modelled from the spec: the strategy's \<^verbatim>\<open>connect(retryCount, callback)\<close> "returns an
  abortable attempt handle"; an attempt "must be abortable exactly once and must never
  deliver its callback after abortion".
\<close>

definition strategy_connect :: "nat \<Rightarrow> world \<Rightarrow> nat \<times> world" where
  "strategy_connect n w =
     (length (runners w),
      w\<lparr>runners := runners w @ [\<lparr>retry_count = n, rstatus = InFlight\<rparr>]\<rparr>)"

definition abort :: "nat \<Rightarrow> world \<Rightarrow> world" where
  "abort r w =
     (if r < length (runners w) \<and> rstatus (runners w ! r) = InFlight
      then w\<lparr>runners := (runners w)[r := (runners w ! r)\<lparr>rstatus := AbortedRunner\<rparr>]\<rparr>
      else w)"

subsection \<open>Events and state\<close>

text \<open>
  \<^verbatim>\<open>sendTimeline\<close> is the closure the constructor binds to the manager's own
  \<^verbatim>\<open>connected\<close> event and to a 60 second interval.
\<close>

definition sendTimeline :: "world \<Rightarrow> world" where
  "sendTimeline w =
     (if timelineSender w \<noteq> None then w\<lparr>timeline_sends := Suc (timeline_sends w)\<rparr> else w)"

text \<open>
  Modelled from the spec: \<^verbatim>\<open>Pusher.EventsDispatcher\<close> is not in the source file; the
  spec has it as the mechanism that notifies subscribers. \<open>emit\<close> records the event
  and what a subscriber would find, and runs the one callback that the manager itself
  has bound.
\<close>

definition emit :: "string \<Rightarrow> payload \<Rightarrow> world \<Rightarrow> world" where
  "emit name d w =
     (let w1 = w\<lparr>events := events w @ [(name, d)],
                  observed := observed w @ [(state w, connection w \<noteq> None)]\<rparr>
      in if name = ''connected'' then sendTimeline w1 else w1)"

definition updateState :: "string \<Rightarrow> payload \<Rightarrow> world \<Rightarrow> world" where
  "updateState newState d w =
     (let previousState = state w;
          w1 = w\<lparr>state := newState\<rparr>
      in if previousState \<noteq> newState
         then
           (let w2 = w1\<lparr>debug_log := debug_log w1 @
                        [(''State changed'', previousState @ '' -> '' @ newState)]\<rparr>;
                w3 = emit ''state_change'' (StateChange previousState newState) w2
            in emit newState d w3)
         else w1)"

definition shouldRetry :: "world \<Rightarrow> bool" where
  "shouldRetry w = (state w = ''connecting'' \<or> state w = ''connected'')"

definition updateStrategy :: "world \<Rightarrow> world" where
  "updateStrategy w = w\<lparr>strategy := getStrategy (options w) (encrypted w)\<rparr>"

subsection \<open>Timer handles of the manager\<close>

text \<open>
  \<^verbatim>\<open>retryIn\<close> passes \<^verbatim>\<open>delay || 0\<close> to the timer, which is \<^verbatim>\<open>delay\<close> for a number.
  It stores the new timer without stopping the one stored before, and so does
  \<^verbatim>\<open>setUnavailableTimer\<close>.
\<close>

definition retryIn :: "nat \<Rightarrow> world \<Rightarrow> world" where
  "retryIn d w = (let (t, w1) = new_Timer d RetryCallback w in w1\<lparr>retryTimer := Some t\<rparr>)"

definition clearRetryTimer :: "world \<Rightarrow> world" where
  "clearRetryTimer w = (case retryTimer w of Some t \<Rightarrow> ensureAborted t w | None \<Rightarrow> w)"

definition setUnavailableTimer :: "world \<Rightarrow> world" where
  "setUnavailableTimer w =
     (let (t, w1) = new_Timer (unavailableTimeout (options w)) UnavailableCallback w
      in w1\<lparr>unavailableTimer := Some t\<rparr>)"

definition clearUnavailableTimer :: "world \<Rightarrow> world" where
  "clearUnavailableTimer w =
     (case unavailableTimer w of Some t \<Rightarrow> ensureAborted t w | None \<Rightarrow> w)"

definition stopActivityCheck :: "world \<Rightarrow> world" where
  "stopActivityCheck w = (case activityTimer w of Some t \<Rightarrow> ensureAborted t w | None \<Rightarrow> w)"

text \<open>
  \<^verbatim>\<open>this.connection.supportsPing()\<close> is a call on \<^verbatim>\<open>null\<close> when no Connection is held:
  a TypeError, raised after the old timer was stopped.
\<close>

definition resetActivityCheck :: "world \<Rightarrow> result" where
  "resetActivityCheck w =
     (let w1 = stopActivityCheck w
      in case connection w1 of
           None \<Rightarrow> (Some TypeError, w1)
         | Some c \<Rightarrow>
             if \<not> supportsPing c
             then (let (t, w2) = new_Timer (activityTimeout (options w1)) ActivityCallback w1
                   in (None, w2\<lparr>activityTimer := Some t\<rparr>))
             else (None, w1))"

subsection \<open>Sending\<close>

definition send :: "string \<Rightarrow> world \<Rightarrow> bool \<times> world" where
  "send d w =
     (case connection w of
        Some c \<Rightarrow> (conn_send c d, w\<lparr>calls := calls w @ [CallSend (conn_ref c) d]\<rparr>)
      | None \<Rightarrow> (False, w))"

definition send_event :: "string \<Rightarrow> string \<Rightarrow> string option \<Rightarrow> world \<Rightarrow> bool \<times> world" where
  "send_event name d channel w =
     (case connection w of
        Some c \<Rightarrow> (conn_send_event c name d channel,
                   w\<lparr>calls := calls w @ [CallSendEvent (conn_ref c) name d channel]\<rparr>)
      | None \<Rightarrow> (False, w))"

subsection \<open>Adopting and releasing a Connection\<close>

text \<open>
  \<^verbatim>\<open>setConnection\<close> stores its argument and then binds the callbacks on it; with an
  argument that is not an object the first \<^verbatim>\<open>bind\<close> raises.
\<close>

definition setConnection :: "connection_obj option \<Rightarrow> world \<Rightarrow> result" where
  "setConnection c w =
     (let w1 = w\<lparr>connection := c\<rparr>
      in case c of
           None \<Rightarrow> (Some TypeError, w1)
         | Some co \<Rightarrow> resetActivityCheck (w1\<lparr>bound := insert (conn_ref co) (bound w1)\<rparr>))"

definition abandonConnection :: "world \<Rightarrow> world" where
  "abandonConnection w =
     (case connection w of
        None \<Rightarrow> w
      | Some c \<Rightarrow> w\<lparr>bound := bound w - {conn_ref c}, connection := None\<rparr>)"

text \<open>
  \<^verbatim>\<open>connection.close()\<close> is recorded as a call. The \<open>closed\<close> event that the transport
  emits in response reaches the manager as an event of its own, and only while the
  callbacks are still bound.
\<close>

definition conn_close :: "connection_obj \<Rightarrow> world \<Rightarrow> world" where
  "conn_close c w = w\<lparr>calls := calls w @ [CallClose (conn_ref c)]\<rparr>"

subsection \<open>The public operations\<close>

definition disconnect :: "world \<Rightarrow> world" where
  "disconnect w =
     (let w1 = (case runner w of Some r \<Rightarrow> abort r w | None \<Rightarrow> w);
          w2 = clearRetryTimer w1;
          w3 = clearUnavailableTimer w2;
          w4 = stopActivityCheck w3;
          w5 = updateState ''disconnected'' Undefined w4
      in case connection w5 of
           Some c \<Rightarrow> abandonConnection (conn_close c w5)
         | None \<Rightarrow> w5)"

definition connect :: "world \<Rightarrow> world" where
  "connect w =
     (if connection w \<noteq> None then w
      else if state w = ''connecting'' then w
      else if \<not> isSupported (strategy w) then updateState ''failed'' Undefined w
      else if online w = Some False then updateState ''unavailable'' Undefined w
      else
        (let w1 = updateState ''connecting'' Undefined w;
             w2 = w1\<lparr>timelineSender := Some (encrypted w1)\<rparr>;
             (r, w3) = strategy_connect 0 w2;
             w4 = w3\<lparr>runner := Some r\<rparr>
         in setUnavailableTimer w4))"

subsection \<open>Handshake and error callbacks\<close>

definition errorCallbacks :: "string \<rightharpoonup> (handshake \<Rightarrow> world \<Rightarrow> result)" where
  "errorCallbacks = map_of
     [(''ssl_only'', \<lambda>h w. (None, retryIn 0 (updateStrategy (w\<lparr>encrypted := True\<rparr>)))),
      (''refused'', \<lambda>h w. (None, disconnect w)),
      (''backoff'', \<lambda>h w. (None, retryIn 1000 w)),
      (''retry'', \<lambda>h w. (None, retryIn 0 w))]"

definition connected_callback :: "handshake \<Rightarrow> world \<Rightarrow> result" where
  "connected_callback h w =
     (let w1 = clearUnavailableTimer w
      in case setConnection (hs_connection h) w1 of
           (Some e, w2) \<Rightarrow> (Some e, w2)
         | (None, w2) \<Rightarrow>
             (let w3 = w2\<lparr>socket_id := map_option conn_id (connection w2)\<rparr>
              in (None, updateState ''connected'' Undefined w3)))"

definition handshakeCallbacks :: "string \<rightharpoonup> (handshake \<Rightarrow> world \<Rightarrow> result)" where
  "handshakeCallbacks = errorCallbacks ++ map_of [(''connected'', connected_callback)]"

text \<open>
  The table is a plain object, so a key that is not one of its own is looked up in
  \<^verbatim>\<open>Object.prototype\<close>. \<open>Some True\<close>: the member is a function that returns when it is
  called with a handshake and leaves the manager alone; \<open>Some False\<close>: the member is
  not callable, or raises a TypeError on that argument. Any other key is
  \<^verbatim>\<open>undefined\<close>.
\<close>

definition object_prototype :: "string \<rightharpoonup> bool" where
  "object_prototype = map_of
     [(''constructor'', True), (''toString'', True), (''toLocaleString'', True),
      (''valueOf'', True), (''hasOwnProperty'', True), (''isPrototypeOf'', True),
      (''propertyIsEnumerable'', True), (''__lookupGetter__'', True),
      (''__lookupSetter__'', True), (''__defineGetter__'', False),
      (''__defineSetter__'', False), (''__proto__'', False)]"

text \<open>
  The closure \<^verbatim>\<open>callback(error, handshake)\<close> of \<^verbatim>\<open>connect\<close>. A truthy error restarts
  the strategy; otherwise the current attempt is aborted and the handshake dispatched
  on its action. Calling \<^verbatim>\<open>undefined\<close> raises a TypeError.
\<close>

definition strategy_callback :: "string option \<Rightarrow> handshake \<Rightarrow> world \<Rightarrow> result" where
  "strategy_callback err h w =
     (case err of
        Some e \<Rightarrow> (let (r, w1) = strategy_connect 0 w in (None, w1\<lparr>runner := Some r\<rparr>))
      | None \<Rightarrow>
          (case runner w of
             None \<Rightarrow> (Some TypeError, w)
           | Some r \<Rightarrow>
               (let w1 = abort r w
                in case handshakeCallbacks (action h) of
                     Some cb \<Rightarrow> cb h w1
                   | None \<Rightarrow>
                       (case object_prototype (action h) of
                          Some True \<Rightarrow> (None, w1)
                        | _ \<Rightarrow> (Some TypeError, w1)))))"

subsection \<open>Callbacks bound on a Connection\<close>

definition message_callback :: "string \<Rightarrow> world \<Rightarrow> result" where
  "message_callback m w =
     (case resetActivityCheck w of
        (Some e, w1) \<Rightarrow> (Some e, w1)
      | (None, w1) \<Rightarrow> (None, emit ''message'' (Message m) w1))"

definition ping_callback :: "world \<Rightarrow> result" where
  "ping_callback w = (None, snd (send_event ''pusher:pong'' ''{}'' None w))"

definition ping_request_callback :: "world \<Rightarrow> result" where
  "ping_request_callback w = (None, snd (send_event ''pusher:ping'' ''{}'' None w))"

definition error_callback :: "string \<Rightarrow> world \<Rightarrow> result" where
  "error_callback e w = (None, emit ''error'' (WebSocketError e) w)"

definition closed_callback :: "world \<Rightarrow> result" where
  "closed_callback w =
     (let w1 = abandonConnection w
      in if shouldRetry w1 then (None, retryIn 1000 w1) else (None, w1))"

subsection \<open>Callbacks of timers and of the network monitor\<close>

fun timer_fired :: "timer_callback \<Rightarrow> world \<Rightarrow> result" where
  "timer_fired RetryCallback w = (None, connect (disconnect w))"
| "timer_fired UnavailableCallback w = (None, updateState ''unavailable'' Undefined w)"
| "timer_fired ActivityCallback w =
     (let w1 = snd (send_event ''pusher:ping'' ''{}'' None w);
          (t, w2) = new_Timer (pongTimeout (options w1)) PongCallback w1
      in (None, w2\<lparr>activityTimer := Some t\<rparr>))"
| "timer_fired PongCallback w =
     (case connection w of
        None \<Rightarrow> (Some TypeError, w)
      | Some c \<Rightarrow> (None, conn_close c w))"

definition network_online :: "world \<Rightarrow> world" where
  "network_online w = (if state w = ''unavailable'' then connect w else w)"

definition network_offline :: "world \<Rightarrow> world" where
  "network_offline w =
     (if shouldRetry w then updateState ''unavailable'' Undefined (disconnect w) else w)"

subsection \<open>Construction\<close>

text \<open>The constructor, given the options and what the network monitor answers.\<close>

definition ConnectionManager :: "options_obj \<Rightarrow> bool option \<Rightarrow> world" where
  "ConnectionManager opts net =
     updateStrategy
       \<lparr>options = opts, state = ''initialized'', connection = None,
        encrypted = opt_encrypted opts,
        strategy = getStrategy opts (opt_encrypted opts),
        runner = None, retryTimer = None, unavailableTimer = None, activityTimer = None,
        socket_id = None, timelineSender = None,
        timers = [], runners = [], online = net, events = [], observed = [], calls = [],
        bound = {},
        debug_log = [], timeline_sends = 0\<rparr>"

section \<open>Runs of the manager\<close>

text \<open>
  Everything that can reach the manager: calls of its public functions, and the
  callbacks that the collaborators deliver. A collaborator delivers a callback only
  when it can: an attempt that is in flight (it then counts as delivered), a timer that
  is pending (it then counts as fired), a Connection on which the callbacks are bound.
  \<open>NetworkReports\<close> changes what \<^verbatim>\<open>Pusher.Network.isOnline()\<close> answers
  (\<^verbatim>\<open>true\<close>, \<^verbatim>\<open>false\<close>, or \<^verbatim>\<open>null\<close> when it does not know).
\<close>

datatype event =
    Connect
  | Disconnect
  | Send string
  | SendEvent string string "string option"
  | StrategyCallback nat "string option" handshake
  | TimerFires nat
  | NetworkOnline
  | NetworkOffline
  | NetworkReports "bool option"
  | TimelineInterval
  | ConnMessage nat string
  | ConnPing nat
  | ConnPingRequest nat
  | ConnError nat string
  | ConnClosed nat

fun step :: "event \<Rightarrow> world \<Rightarrow> result" where
  "step Connect w = (None, connect w)"
| "step Disconnect w = (None, disconnect w)"
| "step (Send d) w = (None, snd (send d w))"
| "step (SendEvent name d channel) w = (None, snd (send_event name d channel w))"
| "step (StrategyCallback r err h) w =
     (if r < length (runners w) \<and> rstatus (runners w ! r) = InFlight
      then strategy_callback err h
             (w\<lparr>runners := (runners w)[r := (runners w ! r)\<lparr>rstatus := Delivered\<rparr>]\<rparr>)
      else (None, w))"
| "step (TimerFires i) w =
     (if i < length (timers w) \<and> tstatus (timers w ! i) = Pending
      then timer_fired (callback (timers w ! i))
             (w\<lparr>timers := (timers w)[i := (timers w ! i)\<lparr>tstatus := Fired\<rparr>]\<rparr>)
      else (None, w))"
| "step NetworkOnline w = (None, network_online w)"
| "step NetworkOffline w = (None, network_offline w)"
| "step (NetworkReports b) w = (None, w\<lparr>online := b\<rparr>)"
| "step TimelineInterval w = (None, sendTimeline w)"
| "step (ConnMessage c m) w = (if c \<in> bound w then message_callback m w else (None, w))"
| "step (ConnPing c) w = (if c \<in> bound w then ping_callback w else (None, w))"
| "step (ConnPingRequest c) w = (if c \<in> bound w then ping_request_callback w else (None, w))"
| "step (ConnError c e) w = (if c \<in> bound w then error_callback e w else (None, w))"
| "step (ConnClosed c) w = (if c \<in> bound w then closed_callback w else (None, w))"

text \<open>
  A run delivers the events one after the other, each to completion. An exception
  leaves the manager in the state it had when it was raised.
\<close>

fun run :: "event list \<Rightarrow> world \<Rightarrow> world" where
  "run [] w = w"
| "run (e # es) w = run es (snd (step e w))"

section \<open>Observing timers\<close>

text \<open>
  Timer \<open>i\<close> of the store is outstanding and will run the closure \<open>k\<close> when it fires.
\<close>

definition pending :: "world \<Rightarrow> timer_callback \<Rightarrow> nat \<Rightarrow> bool" where
  "pending w k i =
     (i < length (timers w) \<and> tstatus (timers w ! i) = Pending \<and> callback (timers w ! i) = k)"

section \<open>Invariants of a run\<close>


text \<open>
  At every emitted event: a subscriber finds a Connection held only in state
  \<open>connected\<close> or \<open>disconnected\<close>.
\<close>

definition observed_ok :: "world \<Rightarrow> bool" where
  "observed_ok w \<longleftrightarrow>
     (\<forall>p \<in> set (observed w). snd p \<longrightarrow> fst p = ''connected'' \<or> fst p = ''disconnected'')"

section \<open>Example collaborators\<close>

text \<open>
  Concrete options, Connections and handshakes on which the theorems below are
  instantiated: a strategy that is supported whatever the encrypted flag, and a
  Connection without native ping whose sends succeed.
\<close>

definition example_options :: options_obj where
  "example_options =
     \<lparr>opt_encrypted = False, unavailableTimeout = 10000, activityTimeout = 120000,
      pongTimeout = 30000,
      getStrategy = (\<lambda>e. \<lparr>isSupported = True, strategy_encrypted = e\<rparr>)\<rparr>"

definition example_connection :: connection_obj where
  "example_connection =
     \<lparr>conn_ref = 1, conn_id = ''42'', supportsPing = False,
      conn_send = (\<lambda>d. True), conn_send_event = (\<lambda>n d c. True)\<rparr>"

definition handshake_connected :: handshake where
  "handshake_connected = \<lparr>action = ''connected'', hs_connection = Some example_connection\<rparr>"

definition handshake_of :: "string \<Rightarrow> handshake" where
  "handshake_of a = \<lparr>action = a, hs_connection = None\<rparr>"

definition fresh_manager :: world where
  "fresh_manager = ConnectionManager example_options (Some True)"

definition connected_manager :: world where
  "connected_manager = run [Connect, StrategyCallback 0 None handshake_connected] fresh_manager"

text \<open>
  Options whose strategy is supported only while the connection is not encrypted.
\<close>

definition ssl_unsupported_options :: options_obj where
  "ssl_unsupported_options =
     \<lparr>opt_encrypted = False, unavailableTimeout = 10000, activityTimeout = 120000,
      pongTimeout = 30000,
      getStrategy = (\<lambda>e. \<lparr>isSupported = \<not> e, strategy_encrypted = e\<rparr>)\<rparr>"

definition ssl_unsupported_manager :: world where
  "ssl_unsupported_manager = ConnectionManager ssl_unsupported_options (Some True)"

text \<open>
  The worlds of one run: the Connection closes, \<^verbatim>\<open>connect()\<close> is called before the retry
  timer fires, the new attempt ends in a \<open>retry\<close> handshake, its retry timer fires, the
  next attempt succeeds, and then the first retry timer fires.
\<close>

definition closed_manager :: world where
  "closed_manager = snd (step (ConnClosed 1) connected_manager)"

definition reconnecting_manager :: world where
  "reconnecting_manager = snd (step Connect closed_manager)"

definition overlapping_manager :: world where
  "overlapping_manager =
     snd (step (StrategyCallback 1 None (handshake_of ''retry'')) reconnecting_manager)"

definition retried_manager :: world where
  "retried_manager = snd (step (TimerFires 4) overlapping_manager)"

definition reconnected_manager :: world where
  "reconnected_manager =
     snd (step (StrategyCallback 2 None handshake_connected) retried_manager)"

definition torn_down_manager :: world where
  "torn_down_manager = snd (step (TimerFires 2) reconnected_manager)"

text \<open>
  The same run when the attempt started by the second retry timer ends in a \<open>refused\<close>
  handshake, and the first retry timer fires afterwards.
\<close>

definition refused_manager :: world where
  "refused_manager =
     snd (step (StrategyCallback 2 None (handshake_of ''refused'')) retried_manager)"

definition retrying_after_refused :: world where
  "retrying_after_refused = snd (step (TimerFires 2) refused_manager)"

text \<open>
  Runs in which the Connection closes while the heartbeat is under way: before the
  activity timer fires, and between the ping and the pong timer.
\<close>

definition silent_ping_manager :: world where
  "silent_ping_manager = snd (step (TimerFires 1) closed_manager)"

definition pinged_manager :: world where
  "pinged_manager = snd (step (TimerFires 1) connected_manager)"

definition pinged_closed_manager :: world where
  "pinged_closed_manager = snd (step (ConnClosed 1) pinged_manager)"

section \<open>Evaluation\<close>

lemmas manager_defs =
  new_Timer_def ensureAborted_def strategy_connect_def abort_def sendTimeline_def emit_def
  updateState_def shouldRetry_def updateStrategy_def retryIn_def clearRetryTimer_def
  setUnavailableTimer_def clearUnavailableTimer_def stopActivityCheck_def
  resetActivityCheck_def send_def send_event_def setConnection_def abandonConnection_def
  conn_close_def disconnect_def connect_def errorCallbacks_def connected_callback_def
  handshakeCallbacks_def object_prototype_def strategy_callback_def message_callback_def
  ping_callback_def ping_request_callback_def error_callback_def closed_callback_def
  network_online_def network_offline_def ConnectionManager_def

lemmas example_defs =
  example_options_def example_connection_def handshake_connected_def handshake_of_def
  fresh_manager_def

lemma connected_manager_fields:
  "state connected_manager = ''connected''"
  "connection connected_manager = Some example_connection"
  "timers connected_manager =
     [\<lparr>delay = 10000, callback = UnavailableCallback, tstatus = Aborted\<rparr>,
      \<lparr>delay = 120000, callback = ActivityCallback, tstatus = Pending\<rparr>]"
  "runners connected_manager = [\<lparr>retry_count = 0, rstatus = Delivered\<rparr>]"
  "runner connected_manager = Some 0"
  "retryTimer connected_manager = None"
  "unavailableTimer connected_manager = Some 0"
  "activityTimer connected_manager = Some 1"
  "calls connected_manager = []"
  "bound connected_manager = {1}"
  "options connected_manager = example_options"
  "events connected_manager =
     [(''state_change'', StateChange ''initialized'' ''connecting''),
      (''connecting'', Undefined),
      (''state_change'', StateChange ''connecting'' ''connected''),
      (''connected'', Undefined)]"
  by (simp_all add: connected_manager_def manager_defs example_defs Let_def)

section \<open>What each operation changes\<close>

lemma updateState_frame [simp]:
  "state (updateState ns d w) = ns"
  "connection (updateState ns d w) = connection w"
  "timers (updateState ns d w) = timers w"
  "runners (updateState ns d w) = runners w"
  "runner (updateState ns d w) = runner w"
  "retryTimer (updateState ns d w) = retryTimer w"
  "unavailableTimer (updateState ns d w) = unavailableTimer w"
  "activityTimer (updateState ns d w) = activityTimer w"
  "options (updateState ns d w) = options w"
  "strategy (updateState ns d w) = strategy w"
  "encrypted (updateState ns d w) = encrypted w"
  "online (updateState ns d w) = online w"
  "bound (updateState ns d w) = bound w"
  "calls (updateState ns d w) = calls w"
  by (simp_all add: updateState_def emit_def sendTimeline_def Let_def)

lemma ensureAborted_frame [simp]:
  "state (ensureAborted t w) = state w"
  "connection (ensureAborted t w) = connection w"
  "runners (ensureAborted t w) = runners w"
  "runner (ensureAborted t w) = runner w"
  "retryTimer (ensureAborted t w) = retryTimer w"
  "unavailableTimer (ensureAborted t w) = unavailableTimer w"
  "activityTimer (ensureAborted t w) = activityTimer w"
  "options (ensureAborted t w) = options w"
  "strategy (ensureAborted t w) = strategy w"
  "encrypted (ensureAborted t w) = encrypted w"
  "online (ensureAborted t w) = online w"
  "bound (ensureAborted t w) = bound w"
  "calls (ensureAborted t w) = calls w"
  "events (ensureAborted t w) = events w"
  "length (timers (ensureAborted t w)) = length (timers w)"
  by (simp_all add: ensureAborted_def)

lemma pending_ensureAborted [simp]:
  "pending (ensureAborted t w) k i = (pending w k i \<and> i \<noteq> t)"
  by (auto simp: pending_def ensureAborted_def nth_list_update)

lemma abort_frame [simp]:
  "state (abort r w) = state w"
  "connection (abort r w) = connection w"
  "timers (abort r w) = timers w"
  "runner (abort r w) = runner w"
  "retryTimer (abort r w) = retryTimer w"
  "unavailableTimer (abort r w) = unavailableTimer w"
  "activityTimer (abort r w) = activityTimer w"
  "options (abort r w) = options w"
  "strategy (abort r w) = strategy w"
  "encrypted (abort r w) = encrypted w"
  "online (abort r w) = online w"
  "bound (abort r w) = bound w"
  "calls (abort r w) = calls w"
  "events (abort r w) = events w"
  "length (runners (abort r w)) = length (runners w)"
  by (simp_all add: abort_def)

lemma abort_not_in_flight:
  "r < length (runners w) \<Longrightarrow> rstatus (runners (abort r w) ! r) \<noteq> InFlight"
  by (simp add: abort_def)

lemma pending_cong:
  "timers w' = timers w \<Longrightarrow> pending w' k i = pending w k i"
  by (simp add: pending_def)

lemma pending_abort [simp]: "pending (abort r w) k i = pending w k i"
  by (simp add: pending_def)

lemma pending_updateState [simp]: "pending (updateState ns d w) k i = pending w k i"
  by (simp add: pending_def)

lemma disconnect_frame [simp]:
  "state (disconnect w) = ''disconnected''"
  "connection (disconnect w) = None"
  "runner (disconnect w) = runner w"
  "retryTimer (disconnect w) = retryTimer w"
  "unavailableTimer (disconnect w) = unavailableTimer w"
  "activityTimer (disconnect w) = activityTimer w"
  "options (disconnect w) = options w"
  "strategy (disconnect w) = strategy w"
  "encrypted (disconnect w) = encrypted w"
  "online (disconnect w) = online w"
  "length (timers (disconnect w)) = length (timers w)"
  "length (runners (disconnect w)) = length (runners w)"
  by (simp_all add: disconnect_def clearRetryTimer_def clearUnavailableTimer_def
        stopActivityCheck_def abandonConnection_def conn_close_def Let_def
      split: option.splits)

lemma pending_disconnect [simp]:
  "pending (disconnect w) k i =
     (pending w k i \<and> retryTimer w \<noteq> Some i \<and> unavailableTimer w \<noteq> Some i \<and>
      activityTimer w \<noteq> Some i)"
  by (auto simp: disconnect_def clearRetryTimer_def clearUnavailableTimer_def
        stopActivityCheck_def abandonConnection_def conn_close_def Let_def
        pending_cong [of "_\<lparr>calls := _\<rparr>"] pending_cong [of "_\<lparr>bound := _, connection := _\<rparr>"]
      split: option.splits)


lemma stopActivityCheck_frame [simp]:
  "state (stopActivityCheck w) = state w"
  "connection (stopActivityCheck w) = connection w"
  "runners (stopActivityCheck w) = runners w"
  "runner (stopActivityCheck w) = runner w"
  "retryTimer (stopActivityCheck w) = retryTimer w"
  "unavailableTimer (stopActivityCheck w) = unavailableTimer w"
  "activityTimer (stopActivityCheck w) = activityTimer w"
  "options (stopActivityCheck w) = options w"
  "strategy (stopActivityCheck w) = strategy w"
  "encrypted (stopActivityCheck w) = encrypted w"
  "online (stopActivityCheck w) = online w"
  "bound (stopActivityCheck w) = bound w"
  "calls (stopActivityCheck w) = calls w"
  "events (stopActivityCheck w) = events w"
  "length (timers (stopActivityCheck w)) = length (timers w)"
  by (simp_all add: stopActivityCheck_def split: option.splits)

lemma pending_stopActivityCheck [simp]:
  "pending (stopActivityCheck w) k i = (pending w k i \<and> activityTimer w \<noteq> Some i)"
  by (auto simp: stopActivityCheck_def split: option.splits)

lemma updateState_events:
  "events (updateState ns d w) =
     events w @
       (if state w = ns then [] else [(''state_change'', StateChange (state w) ns), (ns, d)])"
  by (simp add: updateState_def emit_def sendTimeline_def Let_def)

lemma clearRetryTimer_frame [simp]:
  "state (clearRetryTimer w) = state w"
  "connection (clearRetryTimer w) = connection w"
  "runners (clearRetryTimer w) = runners w"
  "runner (clearRetryTimer w) = runner w"
  "retryTimer (clearRetryTimer w) = retryTimer w"
  "unavailableTimer (clearRetryTimer w) = unavailableTimer w"
  "activityTimer (clearRetryTimer w) = activityTimer w"
  "events (clearRetryTimer w) = events w"
  "calls (clearRetryTimer w) = calls w"
  "bound (clearRetryTimer w) = bound w"
  "options (clearRetryTimer w) = options w"
  "strategy (clearRetryTimer w) = strategy w"
  "encrypted (clearRetryTimer w) = encrypted w"
  "online (clearRetryTimer w) = online w"
  "length (timers (clearRetryTimer w)) = length (timers w)"
  by (simp_all add: clearRetryTimer_def split: option.splits)

lemma clearUnavailableTimer_frame [simp]:
  "state (clearUnavailableTimer w) = state w"
  "connection (clearUnavailableTimer w) = connection w"
  "runners (clearUnavailableTimer w) = runners w"
  "runner (clearUnavailableTimer w) = runner w"
  "retryTimer (clearUnavailableTimer w) = retryTimer w"
  "unavailableTimer (clearUnavailableTimer w) = unavailableTimer w"
  "activityTimer (clearUnavailableTimer w) = activityTimer w"
  "events (clearUnavailableTimer w) = events w"
  "calls (clearUnavailableTimer w) = calls w"
  "bound (clearUnavailableTimer w) = bound w"
  "options (clearUnavailableTimer w) = options w"
  "strategy (clearUnavailableTimer w) = strategy w"
  "encrypted (clearUnavailableTimer w) = encrypted w"
  "online (clearUnavailableTimer w) = online w"
  "length (timers (clearUnavailableTimer w)) = length (timers w)"
  by (simp_all add: clearUnavailableTimer_def split: option.splits)

lemma abandonConnection_frame [simp]:
  "state (abandonConnection w) = state w"
  "connection (abandonConnection w) = None"
  "runners (abandonConnection w) = runners w"
  "runner (abandonConnection w) = runner w"
  "timers (abandonConnection w) = timers w"
  "retryTimer (abandonConnection w) = retryTimer w"
  "unavailableTimer (abandonConnection w) = unavailableTimer w"
  "activityTimer (abandonConnection w) = activityTimer w"
  "events (abandonConnection w) = events w"
  "calls (abandonConnection w) = calls w"
  "options (abandonConnection w) = options w"
  "strategy (abandonConnection w) = strategy w"
  "encrypted (abandonConnection w) = encrypted w"
  "online (abandonConnection w) = online w"
  by (simp_all add: abandonConnection_def split: option.splits)

lemma conn_close_frame [simp]:
  "state (conn_close c w) = state w"
  "connection (conn_close c w) = connection w"
  "runners (conn_close c w) = runners w"
  "runner (conn_close c w) = runner w"
  "timers (conn_close c w) = timers w"
  "retryTimer (conn_close c w) = retryTimer w"
  "unavailableTimer (conn_close c w) = unavailableTimer w"
  "activityTimer (conn_close c w) = activityTimer w"
  "events (conn_close c w) = events w"
  "bound (conn_close c w) = bound w"
  "options (conn_close c w) = options w"
  "strategy (conn_close c w) = strategy w"
  "encrypted (conn_close c w) = encrypted w"
  "online (conn_close c w) = online w"
  by (simp_all add: conn_close_def)

lemma pending_clearRetryTimer [simp]:
  "pending (clearRetryTimer w) k i = (pending w k i \<and> retryTimer w \<noteq> Some i)"
  by (auto simp: clearRetryTimer_def split: option.splits)

lemma pending_clearUnavailableTimer [simp]:
  "pending (clearUnavailableTimer w) k i = (pending w k i \<and> unavailableTimer w \<noteq> Some i)"
  by (auto simp: clearUnavailableTimer_def split: option.splits)

lemma pending_abandonConnection [simp]:
  "pending (abandonConnection w) k i = pending w k i"
  by (simp add: pending_def)

lemma pending_conn_close [simp]: "pending (conn_close c w) k i = pending w k i"
  by (simp add: pending_def)

lemma disconnect_events:
  "events (disconnect w) =
     events w @
       (if state w = ''disconnected'' then []
        else [(''state_change'', StateChange (state w) ''disconnected''),
              (''disconnected'', Undefined)])"
  by (simp add: disconnect_def updateState_events Let_def split: option.splits)

lemma disconnect_runners:
  "runners (disconnect w) = (case runner w of Some r \<Rightarrow> runners (abort r w) | None \<Rightarrow> runners w)"
  by (simp add: disconnect_def Let_def split: option.splits)

lemma disconnect_aborts_runner:
  "runner w = Some r \<Longrightarrow> r < length (runners w) \<Longrightarrow>
     rstatus (runners (disconnect w) ! r) \<noteq> InFlight"
  by (simp add: disconnect_runners abort_not_in_flight)

lemma connect_frame [simp]:
  "connection (connect w) = connection w"
  "calls (connect w) = calls w"
  "bound (connect w) = bound w"
  "retryTimer (connect w) = retryTimer w"
  "activityTimer (connect w) = activityTimer w"
  "options (connect w) = options w"
  "strategy (connect w) = strategy w"
  "encrypted (connect w) = encrypted w"
  "online (connect w) = online w"
  by (simp_all add: connect_def strategy_connect_def setUnavailableTimer_def new_Timer_def
        Let_def)

lemma connect_state:
  "state (connect w) =
     (if connection w \<noteq> None \<or> state w = ''connecting'' then state w
      else if \<not> isSupported (strategy w) then ''failed''
      else if online w = Some False then ''unavailable''
      else ''connecting'')"
  by (simp add: connect_def strategy_connect_def setUnavailableTimer_def new_Timer_def Let_def)

lemma disconnect_calls:
  "calls (disconnect w) =
     calls w @ (case connection w of Some c \<Rightarrow> [CallClose (conn_ref c)] | None \<Rightarrow> [])"
  by (simp add: disconnect_def abandonConnection_def conn_close_def Let_def
      split: option.splits)

lemma connect_fresh_manager:
  "runner (connect fresh_manager) = Some 0"
  "timers (connect fresh_manager) =
     [\<lparr>delay = 10000, callback = UnavailableCallback, tstatus = Pending\<rparr>]"
  "runners (connect fresh_manager) = [\<lparr>retry_count = 0, rstatus = InFlight\<rparr>]"
  "state (connect fresh_manager) = ''connecting''"
  "connection (connect fresh_manager) = None"
  "retryTimer (connect fresh_manager) = None"
  "unavailableTimer (connect fresh_manager) = Some 0"
  "activityTimer (connect fresh_manager) = None"
  "events (connect fresh_manager) =
     [(''state_change'', StateChange ''initialized'' ''connecting''),
      (''connecting'', Undefined)]"
  "options (connect fresh_manager) = example_options"
  by (simp_all add: manager_defs example_defs Let_def)



section \<open>connect\<close>

text \<open>
  C2. \<^verbatim>\<open>connect()\<close> does nothing when a Connection is held or the state is
  \<open>connecting\<close>: the world it returns is the world it was given, so the state, the
  attempts, the timers and the emitted events are all as they were.
\<close>

theorem connect_noop:
  "connection w \<noteq> None \<or> state w = ''connecting'' \<Longrightarrow> connect w = w"
  by (auto simp: connect_def)

theorem connect_noop_witness:
  "state (connect fresh_manager) = ''connecting'' \<and>
   connect (connect fresh_manager) = connect fresh_manager \<and>
   connection connected_manager \<noteq> None \<and>
   connect connected_manager = connected_manager"
proof -
  have h: "state (connect fresh_manager) = ''connecting''"
    by (simp add: connect_fresh_manager)
  from h have a: "connect (connect fresh_manager) = connect fresh_manager"
    using connect_noop [of "connect fresh_manager"] by blast
  have k: "connection connected_manager \<noteq> None"
    by (simp add: connected_manager_fields)
  from k have b: "connect connected_manager = connected_manager"
    using connect_noop [of connected_manager] by blast
  from h a k b show ?thesis by blast
qed

text \<open>
  C6. \<^verbatim>\<open>connect()\<close> with no Connection held and a state other than \<open>connecting\<close>:
  an unsupported strategy gives \<open>failed\<close>, otherwise a network monitor that answers
  \<^verbatim>\<open>false\<close> gives \<open>unavailable\<close>, and in both cases no attempt and no timer is
  created; otherwise the state becomes \<open>connecting\<close>, one attempt with retry count 0
  is started and becomes the manager's runner, and one pending unavailable timer
  with delay \<open>unavailableTimeout\<close> is armed and becomes the manager's unavailable timer.
\<close>

theorem connect_cases:
  assumes "connection w = None" and "state w \<noteq> ''connecting''"
  shows "(\<not> isSupported (strategy w) \<longrightarrow>
           state (connect w) = ''failed'' \<and> runners (connect w) = runners w \<and>
           timers (connect w) = timers w) \<and>
         (isSupported (strategy w) \<and> online w = Some False \<longrightarrow>
           state (connect w) = ''unavailable'' \<and> runners (connect w) = runners w \<and>
           timers (connect w) = timers w) \<and>
         (isSupported (strategy w) \<and> online w \<noteq> Some False \<longrightarrow>
           state (connect w) = ''connecting'' \<and>
           runners (connect w) = runners w @ [\<lparr>retry_count = 0, rstatus = InFlight\<rparr>] \<and>
           runner (connect w) = Some (length (runners w)) \<and>
           timers (connect w) = timers w @
             [\<lparr>delay = unavailableTimeout (options w), callback = UnavailableCallback,
               tstatus = Pending\<rparr>] \<and>
           unavailableTimer (connect w) = Some (length (timers w)))"
  using assms
  by (simp add: connect_def updateState_def emit_def sendTimeline_def
        strategy_connect_def setUnavailableTimer_def new_Timer_def Let_def)

theorem connect_cases_witness:
  "connection fresh_manager = None \<and> state fresh_manager \<noteq> ''connecting'' \<and>
   isSupported (strategy fresh_manager) \<and> online fresh_manager \<noteq> Some False \<and>
   state (connect fresh_manager) = ''connecting'' \<and>
   runners (connect fresh_manager) = [\<lparr>retry_count = 0, rstatus = InFlight\<rparr>] \<and>
   runner (connect fresh_manager) = Some 0 \<and>
   timers (connect fresh_manager) =
     [\<lparr>delay = 10000, callback = UnavailableCallback, tstatus = Pending\<rparr>] \<and>
   unavailableTimer (connect fresh_manager) = Some 0 \<and>
   online (fresh_manager\<lparr>online := Some False\<rparr>) = Some False \<and>
   state (connect (fresh_manager\<lparr>online := Some False\<rparr>)) = ''unavailable'' \<and>
   timers (connect (fresh_manager\<lparr>online := Some False\<rparr>)) = [] \<and>
   \<not> isSupported (strategy (fresh_manager\<lparr>strategy := getStrategy ssl_unsupported_options True\<rparr>)) \<and>
   state (connect (fresh_manager\<lparr>strategy := getStrategy ssl_unsupported_options True\<rparr>)) =
     ''failed'' \<and>
   runners (connect (fresh_manager\<lparr>strategy := getStrategy ssl_unsupported_options True\<rparr>)) = []"
proof -
  have h: "connection fresh_manager = None" "state fresh_manager \<noteq> ''connecting''"
    "isSupported (strategy fresh_manager)" "online fresh_manager \<noteq> Some False"
    "runners fresh_manager = []" "timers fresh_manager = []"
    "unavailableTimeout (options fresh_manager) = 10000"
    by (simp_all add: fresh_manager_def ConnectionManager_def updateStrategy_def
          example_options_def)
  have u: "\<not> isSupported (getStrategy ssl_unsupported_options True)"
    by (simp add: ssl_unsupported_options_def)
  from connect_cases [of fresh_manager] h
  have a: "state (connect fresh_manager) = ''connecting'' \<and>
    runners (connect fresh_manager) = [\<lparr>retry_count = 0, rstatus = InFlight\<rparr>] \<and>
    runner (connect fresh_manager) = Some 0 \<and>
    timers (connect fresh_manager) =
      [\<lparr>delay = 10000, callback = UnavailableCallback, tstatus = Pending\<rparr>] \<and>
    unavailableTimer (connect fresh_manager) = Some 0"
    by simp
  from connect_cases [of "fresh_manager\<lparr>online := Some False\<rparr>"] h
  have b: "state (connect (fresh_manager\<lparr>online := Some False\<rparr>)) = ''unavailable'' \<and>
    timers (connect (fresh_manager\<lparr>online := Some False\<rparr>)) = []"
    by simp
  from connect_cases [of "fresh_manager\<lparr>strategy := getStrategy ssl_unsupported_options True\<rparr>"]
    h u
  have c: "state (connect (fresh_manager\<lparr>strategy := getStrategy ssl_unsupported_options True\<rparr>)) =
      ''failed'' \<and>
    runners (connect (fresh_manager\<lparr>strategy := getStrategy ssl_unsupported_options True\<rparr>)) = []"
    by simp
  from h a b c u show ?thesis by simp
qed

section \<open>updateState\<close>

text \<open>
  C3. \<^verbatim>\<open>updateState(newState, data)\<close> emits exactly when \<open>newState\<close> differs from the
  current state, and then exactly two events: \<open>state_change\<close> with the previous and the
  new state, followed by the event named \<open>newState\<close> with \<open>data\<close>. When the two states
  are equal nothing is emitted, and the manager is left as it was.
\<close>

theorem updateState_emits:
  "events (updateState newState d w) =
     (if state w = newState then events w
      else events w @ [(''state_change'', StateChange (state w) newState), (newState, d)]) \<and>
   state (updateState newState d w) = newState \<and>
   (state w = newState \<longrightarrow> updateState newState d w = w)"
  by (simp add: updateState_def emit_def sendTimeline_def Let_def)

theorem updateState_emits_witness:
  "events (updateState ''connecting'' Undefined fresh_manager) =
     [(''state_change'', StateChange ''initialized'' ''connecting''),
      (''connecting'', Undefined)] \<and>
   updateState ''initialized'' Undefined fresh_manager = fresh_manager"
proof -
  have h: "state fresh_manager = ''initialized''" "events fresh_manager = []"
    by (simp_all add: fresh_manager_def ConnectionManager_def updateStrategy_def)
  from updateState_emits [of "''connecting''" Undefined fresh_manager]
    updateState_emits [of "''initialized''" Undefined fresh_manager] h
  show ?thesis by simp
qed

section \<open>send and send_event\<close>

text \<open>
  C10. With no Connection held, \<^verbatim>\<open>send\<close> and \<^verbatim>\<open>send_event\<close> return \<^verbatim>\<open>false\<close> and
  leave the world as it was; with a Connection held they return what the
  Connection's own \<^verbatim>\<open>send\<close> and \<^verbatim>\<open>send_event\<close> return. Neither has a branch
  that raises.
\<close>

theorem send_delegates:
  "(connection w = None \<longrightarrow>
     send d w = (False, w) \<and> send_event name d channel w = (False, w)) \<and>
   (\<forall>c. connection w = Some c \<longrightarrow>
     fst (send d w) = conn_send c d \<and>
     fst (send_event name d channel w) = conn_send_event c name d channel)"
  by (simp add: send_def send_event_def)

theorem send_delegates_witness:
  "connection fresh_manager = None \<and>
   send ''x'' fresh_manager = (False, fresh_manager) \<and>
   send_event ''e'' ''x'' None fresh_manager = (False, fresh_manager) \<and>
   connection (fresh_manager\<lparr>connection := Some example_connection\<rparr>) =
     Some example_connection \<and>
   fst (send ''x'' (fresh_manager\<lparr>connection := Some example_connection\<rparr>)) = True \<and>
   fst (send_event ''e'' ''x'' None (fresh_manager\<lparr>connection := Some example_connection\<rparr>))
     = True"
proof -
  have h: "connection fresh_manager = None"
    by (simp add: fresh_manager_def ConnectionManager_def updateStrategy_def)
  have k: "conn_send example_connection ''x'' = True"
    "conn_send_event example_connection ''e'' ''x'' None = True"
    by (simp_all add: example_connection_def)
  from send_delegates [of fresh_manager "''x''" "''e''" None]
    send_delegates [of "fresh_manager\<lparr>connection := Some example_connection\<rparr>"
      "''x''" "''e''" None] h k
  show ?thesis by simp
qed

section \<open>Handshake error tags\<close>

lemma handshakeCallbacks_lookup:
  "handshakeCallbacks ''ssl_only'' =
     Some (\<lambda>h w. (None, retryIn 0 (updateStrategy (w\<lparr>encrypted := True\<rparr>))))"
  "handshakeCallbacks ''refused'' = Some (\<lambda>h w. (None, disconnect w))"
  "handshakeCallbacks ''backoff'' = Some (\<lambda>h w. (None, retryIn 1000 w))"
  "handshakeCallbacks ''retry'' = Some (\<lambda>h w. (None, retryIn 0 w))"
  "handshakeCallbacks ''connected'' = Some connected_callback"
  by (simp_all add: handshakeCallbacks_def errorCallbacks_def)

lemma retryIn_frame [simp]:
  "state (retryIn d w) = state w"
  "connection (retryIn d w) = connection w"
  "runners (retryIn d w) = runners w"
  "runner (retryIn d w) = runner w"
  "unavailableTimer (retryIn d w) = unavailableTimer w"
  "activityTimer (retryIn d w) = activityTimer w"
  "options (retryIn d w) = options w"
  "strategy (retryIn d w) = strategy w"
  "encrypted (retryIn d w) = encrypted w"
  "online (retryIn d w) = online w"
  "bound (retryIn d w) = bound w"
  "calls (retryIn d w) = calls w"
  "events (retryIn d w) = events w"
  "retryTimer (retryIn d w) = Some (length (timers w))"
  "timers (retryIn d w) =
     timers w @ [\<lparr>delay = d, callback = RetryCallback, tstatus = Pending\<rparr>]"
  by (simp_all add: retryIn_def new_Timer_def)

lemma callback_ssl_only:
  assumes "runner w = Some r" and "action h = ''ssl_only''"
  shows "fst (strategy_callback None h w) = None"
    and "encrypted (snd (strategy_callback None h w)) = True"
    and "strategy (snd (strategy_callback None h w)) = getStrategy (options w) True"
    and "timers (snd (strategy_callback None h w)) =
           timers w @ [\<lparr>delay = 0, callback = RetryCallback, tstatus = Pending\<rparr>]"
    and "retryTimer (snd (strategy_callback None h w)) = Some (length (timers w))"
    and "state (snd (strategy_callback None h w)) = state w"
  using assms
  by (simp_all add: strategy_callback_def handshakeCallbacks_lookup updateStrategy_def)

lemma callback_retryIn:
  assumes "runner w = Some r"
    and "action h = ''backoff'' \<and> d = 1000 \<or> action h = ''retry'' \<and> d = 0"
  shows "fst (strategy_callback None h w) = None"
    and "timers (snd (strategy_callback None h w)) =
           timers w @ [\<lparr>delay = d, callback = RetryCallback, tstatus = Pending\<rparr>]"
    and "retryTimer (snd (strategy_callback None h w)) = Some (length (timers w))"
    and "state (snd (strategy_callback None h w)) = state w"
    and "length (runners (snd (strategy_callback None h w))) = length (runners w)"
    and "r < length (runners w) \<longrightarrow>
           rstatus (runners (snd (strategy_callback None h w)) ! r) \<noteq> InFlight"
  using assms
  by (auto simp: strategy_callback_def handshakeCallbacks_lookup abort_not_in_flight)

lemma callback_refused:
  assumes "runner w = Some r" and "action h = ''refused''"
  shows "strategy_callback None h w = (None, disconnect (abort r w))"
  using assms
  by (simp add: strategy_callback_def handshakeCallbacks_lookup)


lemma connect_keeps_runners:
  "r < length (runners w) \<Longrightarrow> runners (connect w) ! r = runners w ! r"
  by (simp add: connect_def strategy_connect_def setUnavailableTimer_def new_Timer_def Let_def
        nth_append)

lemma retry_timer_fires_after_abort:
  assumes "runner w = Some r" and "r < length (runners w)"
    and "action h = ''backoff'' \<or> action h = ''retry''"
  shows "rstatus (runners (snd (step (TimerFires (length (timers w)))
           (snd (strategy_callback None h w)))) ! r) \<noteq> InFlight"
proof -
  obtain d where w': "snd (strategy_callback None h w) = retryIn d (abort r w)"
    using assms(1,3) by (auto simp: strategy_callback_def handshakeCallbacks_lookup)
  let ?w = "(retryIn d (abort r w))\<lparr>timers := (timers (retryIn d (abort r w)))
      [length (timers w) := (timers (retryIn d (abort r w)) ! length (timers w))
        \<lparr>tstatus := Fired\<rparr>]\<rparr>"
  have fired: "snd (step (TimerFires (length (timers w))) (retryIn d (abort r w))) =
      connect (disconnect ?w)"
    by simp
  have "runner ?w = Some r" "r < length (runners ?w)"
    using assms(1,2) by simp_all
  then have "rstatus (runners (disconnect ?w) ! r) \<noteq> InFlight"
    by (rule disconnect_aborts_runner)
  moreover have "r < length (runners (disconnect ?w))"
    using assms(2) by simp
  ultimately have "rstatus (runners (connect (disconnect ?w)) ! r) \<noteq> InFlight"
    by (simp add: connect_keeps_runners)
  with w' fired show ?thesis
    by simp
qed

text \<open>
  The error tags, as far as the manager's own timers and runner go. The strategy
  callback, given a handshake with one of the four error tags, while the
  manager has a runner \<open>r\<close>. \<open>ssl_only\<close>: the encrypted flag is set, the strategy is
  the one \<^verbatim>\<open>getStrategy\<close> gives for an encrypted connection, and one pending retry
  timer with delay 0 is added and becomes the manager's retry timer. \<open>refused\<close>: the
  result is that of \<^verbatim>\<open>disconnect()\<close>; the state is \<open>disconnected\<close>, no timer is
  created, a timer that is still pending was pending before and is none of the
  manager's three timers, and if the only retry timer that could be pending before
  was the manager's own, no retry timer is pending afterwards. \<open>backoff\<close>: one pending
  retry timer with delay 1000 is added and becomes the manager's retry timer, no new
  attempt is started, and the runner is no longer in flight, neither now nor when that
  timer fires and starts the next attempt. \<open>retry\<close>: one pending retry timer with
  delay 0 is added and becomes the manager's retry timer.
\<close>

lemma error_tag_policy:
  assumes "runner w = Some r"
  shows "let w' = snd (strategy_callback None h w) in
    (action h = ''ssl_only'' \<longrightarrow>
       fst (strategy_callback None h w) = None \<and> encrypted w' = True \<and>
       strategy w' = getStrategy (options w) True \<and>
       timers w' = timers w @ [\<lparr>delay = 0, callback = RetryCallback, tstatus = Pending\<rparr>] \<and>
       retryTimer w' = Some (length (timers w)) \<and> state w' = state w) \<and>
    (action h = ''refused'' \<longrightarrow>
       strategy_callback None h w = (None, disconnect (abort r w)) \<and>
       state w' = ''disconnected'' \<and> connection w' = None \<and>
       length (timers w') = length (timers w) \<and> retryTimer w' = retryTimer w \<and>
       (\<forall>k i. pending w' k i \<longrightarrow>
          pending w k i \<and> retryTimer w \<noteq> Some i \<and> unavailableTimer w \<noteq> Some i \<and>
          activityTimer w \<noteq> Some i) \<and>
       ((\<forall>i. pending w RetryCallback i \<longrightarrow> retryTimer w = Some i) \<longrightarrow>
          (\<forall>i. \<not> pending w' RetryCallback i))) \<and>
    (action h = ''backoff'' \<longrightarrow>
       fst (strategy_callback None h w) = None \<and>
       timers w' = timers w @ [\<lparr>delay = 1000, callback = RetryCallback, tstatus = Pending\<rparr>] \<and>
       retryTimer w' = Some (length (timers w)) \<and> state w' = state w \<and>
       length (runners w') = length (runners w) \<and>
       (r < length (runners w) \<longrightarrow>
          rstatus (runners w' ! r) \<noteq> InFlight \<and>
          rstatus (runners (snd (step (TimerFires (length (timers w))) w')) ! r) \<noteq> InFlight)) \<and>
    (action h = ''retry'' \<longrightarrow>
       fst (strategy_callback None h w) = None \<and>
       timers w' = timers w @ [\<lparr>delay = 0, callback = RetryCallback, tstatus = Pending\<rparr>] \<and>
       retryTimer w' = Some (length (timers w)) \<and> state w' = state w)"
proof -
  have ssl: ?thesis if "action h = ''ssl_only''"
    using callback_ssl_only [OF assms that] that by (simp add: Let_def)
  have refused: ?thesis if "action h = ''refused''"
    using callback_refused [OF assms that] that by (auto simp: Let_def)
  have backoff: ?thesis if "action h = ''backoff''"
    using callback_retryIn [OF assms, of h 1000] retry_timer_fires_after_abort [OF assms, of h]
      that
    by (simp add: Let_def del: step.simps)
  have retry: ?thesis if "action h = ''retry''"
    using callback_retryIn [OF assms, of h 0] that by (simp add: Let_def)
  have other: ?thesis
    if "action h \<noteq> ''ssl_only''" "action h \<noteq> ''refused''" "action h \<noteq> ''backoff''"
      "action h \<noteq> ''retry''"
    using that by (simp add: Let_def)
  from ssl refused backoff retry other show ?thesis by blast
qed


lemma error_tag_policy_example:
  "runner (connect fresh_manager) = Some 0 \<and>
   encrypted (snd (strategy_callback None (handshake_of ''ssl_only'') (connect fresh_manager))) \<and>
   timers (snd (strategy_callback None (handshake_of ''ssl_only'') (connect fresh_manager))) =
     [\<lparr>delay = 10000, callback = UnavailableCallback, tstatus = Pending\<rparr>,
      \<lparr>delay = 0, callback = RetryCallback, tstatus = Pending\<rparr>] \<and>
   state (snd (strategy_callback None (handshake_of ''refused'') (connect fresh_manager))) =
     ''disconnected'' \<and>
   (\<forall>i. \<not> pending (snd (strategy_callback None (handshake_of ''refused'')
            (connect fresh_manager))) RetryCallback i) \<and>
   timers (snd (strategy_callback None (handshake_of ''backoff'') (connect fresh_manager))) =
     [\<lparr>delay = 10000, callback = UnavailableCallback, tstatus = Pending\<rparr>,
      \<lparr>delay = 1000, callback = RetryCallback, tstatus = Pending\<rparr>] \<and>
   rstatus (runners (snd (strategy_callback None (handshake_of ''backoff'')
      (connect fresh_manager))) ! 0) \<noteq> InFlight \<and>
   timers (snd (strategy_callback None (handshake_of ''retry'') (connect fresh_manager))) =
     [\<lparr>delay = 10000, callback = UnavailableCallback, tstatus = Pending\<rparr>,
      \<lparr>delay = 0, callback = RetryCallback, tstatus = Pending\<rparr>]"
proof -
  note w = connect_fresh_manager
  note policy = error_tag_policy [OF w(1), unfolded Let_def]
  have tag: "action (handshake_of a) = a" for a
    by (simp add: handshake_of_def)
  have none: "\<forall>i. pending (connect fresh_manager) RetryCallback i \<longrightarrow>
      retryTimer (connect fresh_manager) = Some i"
    by (auto simp: pending_def w)
  have len: "(0::nat) < length (runners (connect fresh_manager))"
    by (simp add: w)
  have ssl:
    "encrypted (snd (strategy_callback None (handshake_of ''ssl_only'') (connect fresh_manager)))"
    "timers (snd (strategy_callback None (handshake_of ''ssl_only'') (connect fresh_manager))) =
       timers (connect fresh_manager) @
         [\<lparr>delay = 0, callback = RetryCallback, tstatus = Pending\<rparr>]"
    using policy [of "handshake_of ''ssl_only''", THEN conjunct1, THEN mp, OF tag]
    by blast+
  have refused:
    "state (snd (strategy_callback None (handshake_of ''refused'') (connect fresh_manager))) =
       ''disconnected''"
    "\<forall>i. \<not> pending (snd (strategy_callback None (handshake_of ''refused'')
            (connect fresh_manager))) RetryCallback i"
    using policy [of "handshake_of ''refused''", THEN conjunct2, THEN conjunct1, THEN mp, OF tag]
      none
    by blast+
  have backoff:
    "timers (snd (strategy_callback None (handshake_of ''backoff'') (connect fresh_manager))) =
       timers (connect fresh_manager) @
         [\<lparr>delay = 1000, callback = RetryCallback, tstatus = Pending\<rparr>]"
    "rstatus (runners (snd (strategy_callback None (handshake_of ''backoff'')
       (connect fresh_manager))) ! 0) \<noteq> InFlight"
    using policy [of "handshake_of ''backoff''", THEN conjunct2, THEN conjunct2, THEN conjunct1,
        THEN mp, OF tag] len
    by blast+
  have retry:
    "timers (snd (strategy_callback None (handshake_of ''retry'') (connect fresh_manager))) =
       timers (connect fresh_manager) @
         [\<lparr>delay = 0, callback = RetryCallback, tstatus = Pending\<rparr>]"
    using policy [of "handshake_of ''retry''", THEN conjunct2, THEN conjunct2, THEN conjunct2,
        THEN mp, OF tag]
    by blast
  show ?thesis
    by (simp add: ssl refused backoff retry w)
qed


section \<open>Handshakes with an unrecognized action\<close>

lemma handshakeCallbacks_None:
  "handshakeCallbacks a = None \<longleftrightarrow>
     a \<notin> {''connected'', ''ssl_only'', ''refused'', ''backoff'', ''retry''}"
  by (simp add: handshakeCallbacks_def errorCallbacks_def map_add_def)

lemma resetActivityCheck_held:
  assumes "connection w = Some c"
  shows "resetActivityCheck w =
    (None,
     if supportsPing c then stopActivityCheck w
     else (stopActivityCheck w)
            \<lparr>timers := timers (stopActivityCheck w) @
               [\<lparr>delay = activityTimeout (options w), callback = ActivityCallback,
                 tstatus = Pending\<rparr>],
             activityTimer := Some (length (timers w))\<rparr>)"
  using assms by (simp add: resetActivityCheck_def new_Timer_def Let_def)

lemma connected_callback_returns:
  "hs_connection h = Some c \<Longrightarrow> fst (connected_callback h w) = None"
  by (simp add: connected_callback_def setConnection_def resetActivityCheck_held Let_def)

lemma callback_recognized:
  assumes "runner w = Some r"
    and "action h \<in> {''ssl_only'', ''refused'', ''backoff'', ''retry''}"
  shows "fst (strategy_callback None h w) = None"
  using assms by (auto simp: strategy_callback_def handshakeCallbacks_lookup)

lemma callback_connected:
  assumes "runner w = Some r" and "action h = ''connected''" and "hs_connection h = Some c"
  shows "fst (strategy_callback None h w) = None"
  using assms
  by (simp add: strategy_callback_def handshakeCallbacks_lookup connected_callback_returns)

lemma callback_unknown:
  assumes "runner w = Some r" and "handshakeCallbacks (action h) = None"
    and "object_prototype (action h) = None"
  shows "strategy_callback None h w = (Some TypeError, abort r w)"
  using assms by (simp add: strategy_callback_def)

text \<open>
  C5, as the code has it. While the manager has a runner \<open>r\<close>, the strategy callback
  returns without raising for each of the four error tags and for \<open>connected\<close> with the
  Connection it carries. For an action that names no property of the callback table,
  neither its own nor one inherited from \<^verbatim>\<open>Object.prototype\<close>, the callback aborts
  the runner and then raises a TypeError; state, Connection, timers and emitted events
  are as they were and no attempt is started.
\<close>

theorem unknown_action_raises:
  assumes "runner w = Some r"
  shows "(action h \<in> {''ssl_only'', ''refused'', ''backoff'', ''retry''} \<longrightarrow>
            fst (strategy_callback None h w) = None) \<and>
         (action h = ''connected'' \<and> hs_connection h \<noteq> None \<longrightarrow>
            fst (strategy_callback None h w) = None) \<and>
         (action h \<notin> {''connected'', ''ssl_only'', ''refused'', ''backoff'', ''retry''} \<and>
          object_prototype (action h) = None \<longrightarrow>
            strategy_callback None h w = (Some TypeError, abort r w) \<and>
            state (abort r w) = state w \<and> connection (abort r w) = connection w \<and>
            timers (abort r w) = timers w \<and> events (abort r w) = events w \<and>
            length (runners (abort r w)) = length (runners w))"
proof (intro conjI impI)
  assume "action h \<in> {''ssl_only'', ''refused'', ''backoff'', ''retry''}"
  then show "fst (strategy_callback None h w) = None"
    by (rule callback_recognized [OF assms])
next
  assume "action h = ''connected'' \<and> hs_connection h \<noteq> None"
  then obtain c where "action h = ''connected''" "hs_connection h = Some c"
    by blast
  then show "fst (strategy_callback None h w) = None"
    by (rule callback_connected [OF assms])
next
  assume "action h \<notin> {''connected'', ''ssl_only'', ''refused'', ''backoff'', ''retry''} \<and>
    object_prototype (action h) = None"
  then have "handshakeCallbacks (action h) = None" "object_prototype (action h) = None"
    by (auto simp: handshakeCallbacks_None)
  then show "strategy_callback None h w = (Some TypeError, abort r w)"
    by (rule callback_unknown [OF assms])
qed simp_all

theorem unknown_action_raises_witness:
  "runner (connect fresh_manager) = Some 0 \<and>
   fst (strategy_callback None (handshake_of ''retry'') (connect fresh_manager)) = None \<and>
   fst (strategy_callback None handshake_connected (connect fresh_manager)) = None \<and>
   strategy_callback None (handshake_of ''foo'') (connect fresh_manager) =
     (Some TypeError, abort 0 (connect fresh_manager))"
proof -
  note w = connect_fresh_manager
  note u = unknown_action_raises [OF w(1)]
  have "action (handshake_of ''retry'') \<in> {''ssl_only'', ''refused'', ''backoff'', ''retry''}"
    by (simp add: handshake_of_def)
  with u [of "handshake_of ''retry''"]
  have a: "fst (strategy_callback None (handshake_of ''retry'') (connect fresh_manager)) = None"
    by blast
  have "action handshake_connected = ''connected'' \<and> hs_connection handshake_connected \<noteq> None"
    by (simp add: handshake_connected_def)
  with u [of handshake_connected]
  have b: "fst (strategy_callback None handshake_connected (connect fresh_manager)) = None"
    by blast
  have "action (handshake_of ''foo'') \<notin>
      {''connected'', ''ssl_only'', ''refused'', ''backoff'', ''retry''} \<and>
    object_prototype (action (handshake_of ''foo'')) = None"
    by (simp add: handshake_of_def object_prototype_def)
  with u [of "handshake_of ''foo''"]
  have c: "strategy_callback None (handshake_of ''foo'') (connect fresh_manager) =
     (Some TypeError, abort 0 (connect fresh_manager))"
    by blast
  from a b c w(1) show ?thesis by blast
qed

text \<open>
  C5 as stated fails: after \<^verbatim>\<open>connect()\<close>, a handshake with the action \<open>foo\<close>
  makes the strategy callback raise a TypeError.
\<close>

theorem unknown_action_counterexample:
  "action (handshake_of ''foo'') \<notin>
     {''connected'', ''ssl_only'', ''refused'', ''backoff'', ''retry''} \<and>
   fst (step (StrategyCallback 0 None (handshake_of ''foo'')) (run [Connect] fresh_manager)) =
     Some TypeError"
proof -
  have "handshakeCallbacks ''foo'' = None"
    by (simp add: handshakeCallbacks_None)
  then show ?thesis
    by (simp add: connect_fresh_manager strategy_callback_def object_prototype_def
          handshake_of_def Let_def)
qed


section \<open>The heartbeat\<close>

lemma resetActivityCheck_fields:
  assumes "connection w = Some c"
  shows "fst (resetActivityCheck w) = None"
    and "connection (snd (resetActivityCheck w)) = Some c"
    and "timers (snd (resetActivityCheck w)) =
           timers (stopActivityCheck w) @
             (if supportsPing c then []
              else [\<lparr>delay = activityTimeout (options w), callback = ActivityCallback,
                     tstatus = Pending\<rparr>])"
    and "activityTimer (snd (resetActivityCheck w)) =
           (if supportsPing c then activityTimer w else Some (length (timers w)))"
    and "events (snd (resetActivityCheck w)) = events w"
    and "state (snd (resetActivityCheck w)) = state w"
    and "calls (snd (resetActivityCheck w)) = calls w"
  using assms by (simp_all add: resetActivityCheck_held)

lemma setConnection_fields:
  "fst (setConnection (Some c) w) = None"
  "connection (snd (setConnection (Some c) w)) = Some c"
  "timers (snd (setConnection (Some c) w)) =
     timers (stopActivityCheck w) @
       (if supportsPing c then []
        else [\<lparr>delay = activityTimeout (options w), callback = ActivityCallback,
               tstatus = Pending\<rparr>])"
  "activityTimer (snd (setConnection (Some c) w)) =
     (if supportsPing c then activityTimer w else Some (length (timers w)))"
  by (simp_all add: setConnection_def resetActivityCheck_held stopActivityCheck_def
        ensureAborted_def Let_def split: option.splits)

lemma message_callback_fields:
  assumes "connection w = Some c"
  shows "fst (message_callback m w) = None"
    and "timers (snd (message_callback m w)) =
           timers (stopActivityCheck w) @
             (if supportsPing c then []
              else [\<lparr>delay = activityTimeout (options w), callback = ActivityCallback,
                     tstatus = Pending\<rparr>])"
    and "activityTimer (snd (message_callback m w)) =
           (if supportsPing c then activityTimer w else Some (length (timers w)))"
    and "events (snd (message_callback m w)) = events w @ [(''message'', Message m)]"
  using assms
  by (simp_all add: message_callback_def resetActivityCheck_held emit_def)

lemma activity_timer_fires:
  assumes "connection w = Some c" and "pending w ActivityCallback i"
  shows "fst (step (TimerFires i) w) = None"
    and "calls (snd (step (TimerFires i) w)) =
           calls w @ [CallSendEvent (conn_ref c) ''pusher:ping'' ''{}'' None]"
    and "timers (snd (step (TimerFires i) w)) =
           (timers w)[i := (timers w ! i)\<lparr>tstatus := Fired\<rparr>] @
             [\<lparr>delay = pongTimeout (options w), callback = PongCallback, tstatus = Pending\<rparr>]"
    and "activityTimer (snd (step (TimerFires i) w)) = Some (length (timers w))"
    and "connection (snd (step (TimerFires i) w)) = Some c"
  using assms
  by (simp_all add: pending_def send_event_def new_Timer_def)

lemma pong_timer_fires:
  assumes "connection w = Some c" and "pending w PongCallback i"
  shows "fst (step (TimerFires i) w) = None"
    and "calls (snd (step (TimerFires i) w)) = calls w @ [CallClose (conn_ref c)]"
    and "timers (snd (step (TimerFires i) w)) =
           (timers w)[i := (timers w ! i)\<lparr>tstatus := Fired\<rparr>]"
    and "\<not> pending (snd (step (TimerFires i) w)) PongCallback i"
  using assms
  by (simp_all add: pending_def conn_close_def)

text \<open>
  The heartbeat while the Connection is held. \<^verbatim>\<open>stopActivityCheck\<close> cancels the manager's activity timer and no other.
  Adopting a Connection \<open>c\<close>, and an inbound message while \<open>c\<close> is held, stop the
  manager's activity timer and, exactly when \<open>c\<close> has no native ping, add one pending
  timer with delay \<open>activityTimeout\<close> that becomes the manager's activity timer; the
  message is then emitted. When a pending activity timer fires while \<open>c\<close> is held, one
  \<open>pusher:ping\<close> event is sent on \<open>c\<close> and one pending timer with delay \<open>pongTimeout\<close>
  is added and becomes the manager's activity timer. When a pending pong timer fires
  while \<open>c\<close> is held, \<open>c\<close> is closed once, and the timer is no longer pending.
\<close>

lemma heartbeat_cycle:
  "(\<forall>k i. pending (stopActivityCheck w) k i \<longleftrightarrow> pending w k i \<and> activityTimer w \<noteq> Some i) \<and>
   (fst (setConnection (Some c) w) = None \<and>
    connection (snd (setConnection (Some c) w)) = Some c \<and>
    timers (snd (setConnection (Some c) w)) =
      timers (stopActivityCheck w) @
        (if supportsPing c then []
         else [\<lparr>delay = activityTimeout (options w), callback = ActivityCallback,
                tstatus = Pending\<rparr>]) \<and>
    activityTimer (snd (setConnection (Some c) w)) =
      (if supportsPing c then activityTimer w else Some (length (timers w)))) \<and>
   (connection w = Some c \<longrightarrow>
      fst (message_callback m w) = None \<and>
      timers (snd (message_callback m w)) =
        timers (stopActivityCheck w) @
          (if supportsPing c then []
           else [\<lparr>delay = activityTimeout (options w), callback = ActivityCallback,
                  tstatus = Pending\<rparr>]) \<and>
      activityTimer (snd (message_callback m w)) =
        (if supportsPing c then activityTimer w else Some (length (timers w))) \<and>
      events (snd (message_callback m w)) = events w @ [(''message'', Message m)]) \<and>
   (connection w = Some c \<and> pending w ActivityCallback i \<longrightarrow>
      fst (step (TimerFires i) w) = None \<and>
      calls (snd (step (TimerFires i) w)) =
        calls w @ [CallSendEvent (conn_ref c) ''pusher:ping'' ''{}'' None] \<and>
      timers (snd (step (TimerFires i) w)) =
        (timers w)[i := (timers w ! i)\<lparr>tstatus := Fired\<rparr>] @
          [\<lparr>delay = pongTimeout (options w), callback = PongCallback, tstatus = Pending\<rparr>] \<and>
      activityTimer (snd (step (TimerFires i) w)) = Some (length (timers w)) \<and>
      connection (snd (step (TimerFires i) w)) = Some c) \<and>
   (connection w = Some c \<and> pending w PongCallback i \<longrightarrow>
      fst (step (TimerFires i) w) = None \<and>
      calls (snd (step (TimerFires i) w)) = calls w @ [CallClose (conn_ref c)] \<and>
      timers (snd (step (TimerFires i) w)) =
        (timers w)[i := (timers w ! i)\<lparr>tstatus := Fired\<rparr>] \<and>
      \<not> pending (snd (step (TimerFires i) w)) PongCallback i)"
proof -
  have stop: "\<forall>k i. pending (stopActivityCheck w) k i \<longleftrightarrow>
      pending w k i \<and> activityTimer w \<noteq> Some i"
    by simp
  note adopt = setConnection_fields [of c w]
  note message = message_callback_fields [of w c m]
  note activity = activity_timer_fires [of w c i]
  note pong = pong_timer_fires [of w c i]
  show ?thesis
    apply (intro conjI impI)
    apply (rule stop)
    apply (rule adopt)+
    apply (erule message)+
    apply (erule conjE, erule (1) activity)+
    apply (erule conjE, erule (1) pong)+
    done
qed


lemma heartbeat_cycle_example:
  "connection connected_manager = Some example_connection \<and>
   pending connected_manager ActivityCallback 1 \<and>
   timers (snd (message_callback ''m'' connected_manager)) =
     [\<lparr>delay = 10000, callback = UnavailableCallback, tstatus = Aborted\<rparr>,
      \<lparr>delay = 120000, callback = ActivityCallback, tstatus = Aborted\<rparr>,
      \<lparr>delay = 120000, callback = ActivityCallback, tstatus = Pending\<rparr>] \<and>
   calls (snd (step (TimerFires 1) connected_manager)) =
     [CallSendEvent 1 ''pusher:ping'' ''{}'' None] \<and>
   pending (snd (step (TimerFires 1) connected_manager)) PongCallback 2 \<and>
   calls (snd (step (TimerFires 2) (snd (step (TimerFires 1) connected_manager)))) =
     [CallSendEvent 1 ''pusher:ping'' ''{}'' None, CallClose 1]"
proof -
  note f = connected_manager_fields
  let ?W = connected_manager
  let ?W2 = "snd (step (TimerFires 1) connected_manager)"
  have ex: "\<not> supportsPing example_connection" "conn_ref example_connection = 1"
    "activityTimeout example_options = 120000" "pongTimeout example_options = 30000"
    by (simp_all add: example_connection_def example_options_def)
  have p1: "pending ?W ActivityCallback 1"
    by (simp add: pending_def f)
  note h1 = heartbeat_cycle [where w = ?W and c = example_connection and m = "''m''" and i = 1]
  have stopped: "timers (stopActivityCheck ?W) =
     [\<lparr>delay = 10000, callback = UnavailableCallback, tstatus = Aborted\<rparr>,
      \<lparr>delay = 120000, callback = ActivityCallback, tstatus = Aborted\<rparr>]"
    by (simp add: stopActivityCheck_def ensureAborted_def f)
  from h1 f(2) have "timers (snd (message_callback ''m'' ?W)) =
      timers (stopActivityCheck ?W) @
        (if supportsPing example_connection then []
         else [\<lparr>delay = activityTimeout (options ?W), callback = ActivityCallback,
                tstatus = Pending\<rparr>])"
    by blast
  then have msg: "timers (snd (message_callback ''m'' ?W)) =
     [\<lparr>delay = 10000, callback = UnavailableCallback, tstatus = Aborted\<rparr>,
      \<lparr>delay = 120000, callback = ActivityCallback, tstatus = Aborted\<rparr>,
      \<lparr>delay = 120000, callback = ActivityCallback, tstatus = Pending\<rparr>]"
    by (simp add: stopped ex f)
  from h1 f(2) p1 have act:
    "calls ?W2 = calls ?W @ [CallSendEvent (conn_ref example_connection) ''pusher:ping'' ''{}'' None]"
    "timers ?W2 = (timers ?W)[1 := (timers ?W ! 1)\<lparr>tstatus := Fired\<rparr>] @
       [\<lparr>delay = pongTimeout (options ?W), callback = PongCallback, tstatus = Pending\<rparr>]"
    "connection ?W2 = Some example_connection"
    by blast+
  have p2: "pending ?W2 PongCallback 2"
    unfolding pending_def act(2) by (simp add: f ex)
  note h2 = heartbeat_cycle [where w = ?W2 and c = example_connection and i = 2]
  from h2 act(3) p2 have "calls (snd (step (TimerFires 2) ?W2)) =
      calls ?W2 @ [CallClose (conn_ref example_connection)]"
    by blast
  then have pong: "calls (snd (step (TimerFires 2) ?W2)) =
      [CallSendEvent 1 ''pusher:ping'' ''{}'' None, CallClose 1]"
    unfolding act(1) f ex by simp
  have ping: "calls ?W2 = [CallSendEvent 1 ''pusher:ping'' ''{}'' None]"
    unfolding act(1) f ex by simp
  from f(2) p1 msg ping p2 pong show ?thesis
    by blast
qed


section \<open>Network reachability\<close>

lemma network_offline_active:
  assumes "state w = ''connecting'' \<or> state w = ''connected''"
  shows "state (network_offline w) = ''unavailable''"
    and "connection (network_offline w) = None"
    and "events (network_offline w) =
           events w @
             [(''state_change'', StateChange (state w) ''disconnected''),
              (''disconnected'', Undefined),
              (''state_change'', StateChange ''disconnected'' ''unavailable''),
              (''unavailable'', Undefined)]"
    and "\<forall>k i. pending (network_offline w) k i \<longleftrightarrow>
           pending w k i \<and> retryTimer w \<noteq> Some i \<and> unavailableTimer w \<noteq> Some i \<and>
           activityTimer w \<noteq> Some i"
    and "\<forall>r. runner w = Some r \<and> r < length (runners w) \<longrightarrow>
           rstatus (runners (network_offline w) ! r) \<noteq> InFlight"
proof -
  from assms have active: "shouldRetry w" and not_disc: "state w \<noteq> ''disconnected''"
    by (auto simp: shouldRetry_def)
  from active have eq: "network_offline w = updateState ''unavailable'' Undefined (disconnect w)"
    by (simp add: network_offline_def)
  show "state (network_offline w) = ''unavailable''"
    and "connection (network_offline w) = None"
    and "\<forall>k i. pending (network_offline w) k i \<longleftrightarrow>
           pending w k i \<and> retryTimer w \<noteq> Some i \<and> unavailableTimer w \<noteq> Some i \<and>
           activityTimer w \<noteq> Some i"
    and "\<forall>r. runner w = Some r \<and> r < length (runners w) \<longrightarrow>
           rstatus (runners (network_offline w) ! r) \<noteq> InFlight"
    by (simp_all add: eq disconnect_aborts_runner)
  have "events (network_offline w) =
      events (disconnect w) @
        [(''state_change'', StateChange ''disconnected'' ''unavailable''),
         (''unavailable'', Undefined)]"
    by (simp add: eq updateState_def emit_def Let_def)
  with not_disc show "events (network_offline w) =
           events w @
             [(''state_change'', StateChange (state w) ''disconnected''),
              (''disconnected'', Undefined),
              (''state_change'', StateChange ''disconnected'' ''unavailable''),
              (''unavailable'', Undefined)]"
    by (simp add: disconnect_events)
qed

lemma network_offline_idle:
  "\<not> (state w = ''connecting'' \<or> state w = ''connected'') \<Longrightarrow> network_offline w = w"
  by (simp add: network_offline_def shouldRetry_def)

lemma network_online_unavailable:
  assumes "state w = ''unavailable''"
  shows "network_online w = connect w"
    and "connection w = None \<and> isSupported (strategy w) \<and> online w \<noteq> Some False \<longrightarrow>
           state (network_online w) = ''connecting'' \<and>
           runners (network_online w) = runners w @ [\<lparr>retry_count = 0, rstatus = InFlight\<rparr>]"
    and "connection w = None \<and> \<not> isSupported (strategy w) \<longrightarrow>
           state (network_online w) = ''failed''"
    and "connection w = None \<and> isSupported (strategy w) \<and> online w = Some False \<longrightarrow>
           network_online w = w"
  using assms
  by (simp_all add: network_online_def connect_def strategy_connect_def
        setUnavailableTimer_def new_Timer_def Let_def)
    (simp add: updateState_def)

lemma network_online_idle:
  "state w \<noteq> ''unavailable'' \<Longrightarrow> network_online w = w"
  by (simp add: network_online_def)


text \<open>
  C8, as the code has it. The offline callback in state \<open>connecting\<close> or \<open>connected\<close>:
  the manager emits the transition to \<open>disconnected\<close> and then the transition to
  \<open>unavailable\<close>, holds no Connection, no timer that was one of its three timers is
  pending, and its runner is no longer in flight; in any other state the callback
  changes nothing. The online callback in state \<open>unavailable\<close> is \<^verbatim>\<open>connect()\<close>:
  with no Connection held, the state becomes \<open>connecting\<close> and an attempt is started
  when the strategy is supported and the network monitor does not answer \<^verbatim>\<open>false\<close>,
  the state becomes \<open>failed\<close> when the strategy is not supported, and nothing changes
  when the monitor still answers \<^verbatim>\<open>false\<close>; in any other state the callback changes
  nothing.
\<close>

theorem network_events:
  "((state w = ''connecting'' \<or> state w = ''connected'') \<longrightarrow>
      state (network_offline w) = ''unavailable'' \<and>
      connection (network_offline w) = None \<and>
      events (network_offline w) =
        events w @
          [(''state_change'', StateChange (state w) ''disconnected''),
           (''disconnected'', Undefined),
           (''state_change'', StateChange ''disconnected'' ''unavailable''),
           (''unavailable'', Undefined)] \<and>
      (\<forall>k i. pending (network_offline w) k i \<longleftrightarrow>
         pending w k i \<and> retryTimer w \<noteq> Some i \<and> unavailableTimer w \<noteq> Some i \<and>
         activityTimer w \<noteq> Some i) \<and>
      (\<forall>r. runner w = Some r \<and> r < length (runners w) \<longrightarrow>
         rstatus (runners (network_offline w) ! r) \<noteq> InFlight)) \<and>
   (\<not> (state w = ''connecting'' \<or> state w = ''connected'') \<longrightarrow> network_offline w = w) \<and>
   (state w = ''unavailable'' \<longrightarrow>
      network_online w = connect w \<and>
      (connection w = None \<and> isSupported (strategy w) \<and> online w \<noteq> Some False \<longrightarrow>
         state (network_online w) = ''connecting'' \<and>
         runners (network_online w) = runners w @ [\<lparr>retry_count = 0, rstatus = InFlight\<rparr>]) \<and>
      (connection w = None \<and> \<not> isSupported (strategy w) \<longrightarrow>
         state (network_online w) = ''failed'') \<and>
      (connection w = None \<and> isSupported (strategy w) \<and> online w = Some False \<longrightarrow>
         network_online w = w)) \<and>
   (state w \<noteq> ''unavailable'' \<longrightarrow> network_online w = w)"
proof (intro conjI)
  show "(state w = ''connecting'' \<or> state w = ''connected'') \<longrightarrow>
      state (network_offline w) = ''unavailable'' \<and>
      connection (network_offline w) = None \<and>
      events (network_offline w) =
        events w @
          [(''state_change'', StateChange (state w) ''disconnected''),
           (''disconnected'', Undefined),
           (''state_change'', StateChange ''disconnected'' ''unavailable''),
           (''unavailable'', Undefined)] \<and>
      (\<forall>k i. pending (network_offline w) k i \<longleftrightarrow>
         pending w k i \<and> retryTimer w \<noteq> Some i \<and> unavailableTimer w \<noteq> Some i \<and>
         activityTimer w \<noteq> Some i) \<and>
      (\<forall>r. runner w = Some r \<and> r < length (runners w) \<longrightarrow>
         rstatus (runners (network_offline w) ! r) \<noteq> InFlight)"
    using network_offline_active [of w] by blast
  show "\<not> (state w = ''connecting'' \<or> state w = ''connected'') \<longrightarrow> network_offline w = w"
    using network_offline_idle [of w] by blast
  show "state w = ''unavailable'' \<longrightarrow>
      network_online w = connect w \<and>
      (connection w = None \<and> isSupported (strategy w) \<and> online w \<noteq> Some False \<longrightarrow>
         state (network_online w) = ''connecting'' \<and>
         runners (network_online w) = runners w @ [\<lparr>retry_count = 0, rstatus = InFlight\<rparr>]) \<and>
      (connection w = None \<and> \<not> isSupported (strategy w) \<longrightarrow>
         state (network_online w) = ''failed'') \<and>
      (connection w = None \<and> isSupported (strategy w) \<and> online w = Some False \<longrightarrow>
         network_online w = w)"
    using network_online_unavailable [of w] by blast
  show "state w \<noteq> ''unavailable'' \<longrightarrow> network_online w = w"
    using network_online_idle [of w] by blast
qed

lemma offline_manager_fields:
  "state (network_offline (connect fresh_manager)) = ''unavailable''"
  "connection (network_offline (connect fresh_manager)) = None"
  "isSupported (strategy (network_offline (connect fresh_manager)))"
  "online (network_offline (connect fresh_manager)) = Some True"
  "runners (network_offline (connect fresh_manager)) =
     [\<lparr>retry_count = 0, rstatus = AbortedRunner\<rparr>]"
  by (simp_all add: connect_fresh_manager network_offline_def shouldRetry_def
        disconnect_runners abort_def)
    (simp_all add: manager_defs example_defs Let_def)

theorem network_events_witness:
  "state (connect fresh_manager) = ''connecting'' \<and>
   state (network_offline (connect fresh_manager)) = ''unavailable'' \<and>
   events (network_offline (connect fresh_manager)) =
     [(''state_change'', StateChange ''initialized'' ''connecting''),
      (''connecting'', Undefined),
      (''state_change'', StateChange ''connecting'' ''disconnected''),
      (''disconnected'', Undefined),
      (''state_change'', StateChange ''disconnected'' ''unavailable''),
      (''unavailable'', Undefined)] \<and>
   \<not> pending (network_offline (connect fresh_manager)) UnavailableCallback 0 \<and>
   rstatus (runners (network_offline (connect fresh_manager)) ! 0) \<noteq> InFlight \<and>
   network_offline fresh_manager = fresh_manager \<and>
   network_online fresh_manager = fresh_manager \<and>
   state (network_online (network_offline (connect fresh_manager))) = ''connecting'' \<and>
   runners (network_online (network_offline (connect fresh_manager))) =
     [\<lparr>retry_count = 0, rstatus = AbortedRunner\<rparr>, \<lparr>retry_count = 0, rstatus = InFlight\<rparr>] \<and>
   state (network_online (fresh_manager\<lparr>state := ''unavailable'',
      strategy := getStrategy ssl_unsupported_options True\<rparr>)) = ''failed'' \<and>
   network_online (fresh_manager\<lparr>state := ''unavailable'', online := Some False\<rparr>) =
     fresh_manager\<lparr>state := ''unavailable'', online := Some False\<rparr>"
proof -
  note w = connect_fresh_manager
  note o = offline_manager_fields
  have init: "state fresh_manager = ''initialized''"
    by (simp add: fresh_manager_def ConnectionManager_def updateStrategy_def)
  note n1 = network_events [of "connect fresh_manager"]
  from n1 w(4) have off:
    "state (network_offline (connect fresh_manager)) = ''unavailable''"
    "events (network_offline (connect fresh_manager)) =
       events (connect fresh_manager) @
         [(''state_change'', StateChange (state (connect fresh_manager)) ''disconnected''),
          (''disconnected'', Undefined),
          (''state_change'', StateChange ''disconnected'' ''unavailable''),
          (''unavailable'', Undefined)]"
    "\<forall>k i. pending (network_offline (connect fresh_manager)) k i \<longleftrightarrow>
       pending (connect fresh_manager) k i \<and> retryTimer (connect fresh_manager) \<noteq> Some i \<and>
       unavailableTimer (connect fresh_manager) \<noteq> Some i \<and>
       activityTimer (connect fresh_manager) \<noteq> Some i"
    "\<forall>r. runner (connect fresh_manager) = Some r \<and> r < length (runners (connect fresh_manager)) \<longrightarrow>
       rstatus (runners (network_offline (connect fresh_manager)) ! r) \<noteq> InFlight"
    by blast+
  have ev: "events (network_offline (connect fresh_manager)) =
     [(''state_change'', StateChange ''initialized'' ''connecting''),
      (''connecting'', Undefined),
      (''state_change'', StateChange ''connecting'' ''disconnected''),
      (''disconnected'', Undefined),
      (''state_change'', StateChange ''disconnected'' ''unavailable''),
      (''unavailable'', Undefined)]"
    unfolding off(2) w by simp
  have unav: "\<not> pending (network_offline (connect fresh_manager)) UnavailableCallback 0"
    using off(3) w(7) by blast
  have run: "rstatus (runners (network_offline (connect fresh_manager)) ! 0) \<noteq> InFlight"
    using off(4) w(1) w(3) by simp
  note n2 = network_events [of fresh_manager]
  from n2 init have idle: "network_offline fresh_manager = fresh_manager"
    "network_online fresh_manager = fresh_manager"
    by simp_all
  note n3 = network_events [of "network_offline (connect fresh_manager)"]
  have "online (network_offline (connect fresh_manager)) \<noteq> Some False"
    by (simp add: o)
  with n3 o(1,2,3) have on:
    "state (network_online (network_offline (connect fresh_manager))) = ''connecting''"
    "runners (network_online (network_offline (connect fresh_manager))) =
       runners (network_offline (connect fresh_manager)) @
         [\<lparr>retry_count = 0, rstatus = InFlight\<rparr>]"
    by blast+
  have fm: "connection fresh_manager = None" "isSupported (strategy fresh_manager)"
    by (simp_all add: fresh_manager_def ConnectionManager_def updateStrategy_def
          example_options_def)
  have uns: "\<not> isSupported (getStrategy ssl_unsupported_options True)"
    by (simp add: ssl_unsupported_options_def)
  have hf: "state (fresh_manager\<lparr>state := ''unavailable'',
      strategy := getStrategy ssl_unsupported_options True\<rparr>) = ''unavailable''"
    "connection (fresh_manager\<lparr>state := ''unavailable'',
      strategy := getStrategy ssl_unsupported_options True\<rparr>) = None"
    "\<not> isSupported (strategy (fresh_manager\<lparr>state := ''unavailable'',
      strategy := getStrategy ssl_unsupported_options True\<rparr>))"
    by (simp_all add: fm uns)
  from network_events [of "fresh_manager\<lparr>state := ''unavailable'',
      strategy := getStrategy ssl_unsupported_options True\<rparr>"] hf
  have failed: "state (network_online (fresh_manager\<lparr>state := ''unavailable'',
      strategy := getStrategy ssl_unsupported_options True\<rparr>)) = ''failed''"
    by blast
  have hs: "state (fresh_manager\<lparr>state := ''unavailable'', online := Some False\<rparr>) =
      ''unavailable''"
    "connection (fresh_manager\<lparr>state := ''unavailable'', online := Some False\<rparr>) = None"
    "isSupported (strategy (fresh_manager\<lparr>state := ''unavailable'', online := Some False\<rparr>))"
    "online (fresh_manager\<lparr>state := ''unavailable'', online := Some False\<rparr>) = Some False"
    by (simp_all add: fm)
  from network_events [of "fresh_manager\<lparr>state := ''unavailable'', online := Some False\<rparr>"] hs
  have stays: "network_online (fresh_manager\<lparr>state := ''unavailable'', online := Some False\<rparr>) =
     fresh_manager\<lparr>state := ''unavailable'', online := Some False\<rparr>"
    by blast
  from w(4) off(1) ev unav run idle on o(5) failed stays show ?thesis
    by (simp del: step.simps)
qed

text \<open>
  C8 as stated fails: with a strategy that is not supported once the connection must be
  encrypted, an \<open>ssl_only\<close> handshake followed by the network going offline leaves the
  manager \<open>unavailable\<close>, and the network coming back takes it to \<open>failed\<close>, not to
  \<open>connecting\<close>.
\<close>

theorem network_online_counterexample:
  "state (run [Connect, StrategyCallback 0 None (handshake_of ''ssl_only''),
               NetworkReports (Some False), NetworkOffline] ssl_unsupported_manager) =
     ''unavailable'' \<and>
   state (run [Connect, StrategyCallback 0 None (handshake_of ''ssl_only''),
               NetworkReports (Some False), NetworkOffline,
               NetworkReports (Some True), NetworkOnline] ssl_unsupported_manager) =
     ''failed''"
  by (simp add: ssl_unsupported_manager_def ssl_unsupported_options_def handshake_of_def
        manager_defs Let_def)


section \<open>Outstanding timers\<close>

lemma example_fields:
  "unavailableTimeout example_options = 10000"
  "activityTimeout example_options = 120000"
  "pongTimeout example_options = 30000"
  "getStrategy example_options e = \<lparr>isSupported = True, strategy_encrypted = e\<rparr>"
  "conn_ref example_connection = 1"
  "\<not> supportsPing example_connection"
  "conn_id example_connection = ''42''"
  "action handshake_connected = ''connected''"
  "hs_connection handshake_connected = Some example_connection"
  "action (handshake_of a) = a"
  by (simp_all add: example_defs)

lemma connected_manager_more:
  "isSupported (strategy connected_manager)"
  "online connected_manager = Some True"
  by (simp_all add: connected_manager_def manager_defs example_defs Let_def)

lemma closed_manager_fields:
  "state closed_manager = ''connected''"
  "connection closed_manager = None"
  "timers closed_manager =
     [\<lparr>delay = 10000, callback = UnavailableCallback, tstatus = Aborted\<rparr>,
      \<lparr>delay = 120000, callback = ActivityCallback, tstatus = Pending\<rparr>,
      \<lparr>delay = 1000, callback = RetryCallback, tstatus = Pending\<rparr>]"
  "runners closed_manager = [\<lparr>retry_count = 0, rstatus = Delivered\<rparr>]"
  "runner closed_manager = Some 0"
  "retryTimer closed_manager = Some 2"
  "unavailableTimer closed_manager = Some 0"
  "activityTimer closed_manager = Some 1"
  "calls closed_manager = []"
  "bound closed_manager = {}"
  "options closed_manager = example_options"
  "isSupported (strategy closed_manager)"
  "online closed_manager = Some True"
  by (simp_all add: closed_manager_def connected_manager_fields connected_manager_more
        closed_callback_def shouldRetry_def new_Timer_def retryIn_def abandonConnection_def
        example_fields)

lemma reconnecting_manager_fields:
  "state reconnecting_manager = ''connecting''"
  "connection reconnecting_manager = None"
  "timers reconnecting_manager =
     [\<lparr>delay = 10000, callback = UnavailableCallback, tstatus = Aborted\<rparr>,
      \<lparr>delay = 120000, callback = ActivityCallback, tstatus = Pending\<rparr>,
      \<lparr>delay = 1000, callback = RetryCallback, tstatus = Pending\<rparr>,
      \<lparr>delay = 10000, callback = UnavailableCallback, tstatus = Pending\<rparr>]"
  "runners reconnecting_manager =
     [\<lparr>retry_count = 0, rstatus = Delivered\<rparr>, \<lparr>retry_count = 0, rstatus = InFlight\<rparr>]"
  "runner reconnecting_manager = Some 1"
  "retryTimer reconnecting_manager = Some 2"
  "unavailableTimer reconnecting_manager = Some 3"
  "activityTimer reconnecting_manager = Some 1"
  "calls reconnecting_manager = []"
  "bound reconnecting_manager = {}"
  "options reconnecting_manager = example_options"
  "isSupported (strategy reconnecting_manager)"
  "online reconnecting_manager = Some True"
  by (simp_all add: reconnecting_manager_def closed_manager_fields connect_def
        strategy_connect_def setUnavailableTimer_def new_Timer_def example_fields Let_def)

lemma overlapping_manager_fields:
  "state overlapping_manager = ''connecting''"
  "connection overlapping_manager = None"
  "timers overlapping_manager =
     [\<lparr>delay = 10000, callback = UnavailableCallback, tstatus = Aborted\<rparr>,
      \<lparr>delay = 120000, callback = ActivityCallback, tstatus = Pending\<rparr>,
      \<lparr>delay = 1000, callback = RetryCallback, tstatus = Pending\<rparr>,
      \<lparr>delay = 10000, callback = UnavailableCallback, tstatus = Pending\<rparr>,
      \<lparr>delay = 0, callback = RetryCallback, tstatus = Pending\<rparr>]"
  "runners overlapping_manager =
     [\<lparr>retry_count = 0, rstatus = Delivered\<rparr>, \<lparr>retry_count = 0, rstatus = Delivered\<rparr>]"
  "runner overlapping_manager = Some 1"
  "retryTimer overlapping_manager = Some 4"
  "unavailableTimer overlapping_manager = Some 3"
  "activityTimer overlapping_manager = Some 1"
  "calls overlapping_manager = []"
  "bound overlapping_manager = {}"
  "options overlapping_manager = example_options"
  "isSupported (strategy overlapping_manager)"
  "online overlapping_manager = Some True"
  by (simp_all add: overlapping_manager_def reconnecting_manager_fields strategy_callback_def
        handshakeCallbacks_lookup abort_def example_fields)


lemma retried_manager_fields:
  "state retried_manager = ''connecting''"
  "connection retried_manager = None"
  "timers retried_manager =
     [\<lparr>delay = 10000, callback = UnavailableCallback, tstatus = Aborted\<rparr>,
      \<lparr>delay = 120000, callback = ActivityCallback, tstatus = Aborted\<rparr>,
      \<lparr>delay = 1000, callback = RetryCallback, tstatus = Pending\<rparr>,
      \<lparr>delay = 10000, callback = UnavailableCallback, tstatus = Aborted\<rparr>,
      \<lparr>delay = 0, callback = RetryCallback, tstatus = Fired\<rparr>,
      \<lparr>delay = 10000, callback = UnavailableCallback, tstatus = Pending\<rparr>]"
  "runners retried_manager =
     [\<lparr>retry_count = 0, rstatus = Delivered\<rparr>, \<lparr>retry_count = 0, rstatus = Delivered\<rparr>,
      \<lparr>retry_count = 0, rstatus = InFlight\<rparr>]"
  "runner retried_manager = Some 2"
  "retryTimer retried_manager = Some 4"
  "unavailableTimer retried_manager = Some 5"
  "activityTimer retried_manager = Some 1"
  "calls retried_manager = []"
  "bound retried_manager = {}"
  "options retried_manager = example_options"
  "isSupported (strategy retried_manager)"
  "online retried_manager = Some True"
  by (simp_all add: retried_manager_def overlapping_manager_fields disconnect_def connect_def
        abort_def clearRetryTimer_def clearUnavailableTimer_def stopActivityCheck_def
        ensureAborted_def strategy_connect_def setUnavailableTimer_def new_Timer_def
        example_fields Let_def)

lemma reconnected_manager_fields:
  "state reconnected_manager = ''connected''"
  "connection reconnected_manager = Some example_connection"
  "timers reconnected_manager =
     [\<lparr>delay = 10000, callback = UnavailableCallback, tstatus = Aborted\<rparr>,
      \<lparr>delay = 120000, callback = ActivityCallback, tstatus = Aborted\<rparr>,
      \<lparr>delay = 1000, callback = RetryCallback, tstatus = Pending\<rparr>,
      \<lparr>delay = 10000, callback = UnavailableCallback, tstatus = Aborted\<rparr>,
      \<lparr>delay = 0, callback = RetryCallback, tstatus = Fired\<rparr>,
      \<lparr>delay = 10000, callback = UnavailableCallback, tstatus = Aborted\<rparr>,
      \<lparr>delay = 120000, callback = ActivityCallback, tstatus = Pending\<rparr>]"
  "runner reconnected_manager = Some 2"
  "retryTimer reconnected_manager = Some 4"
  "unavailableTimer reconnected_manager = Some 5"
  "activityTimer reconnected_manager = Some 6"
  "calls reconnected_manager = []"
  "bound reconnected_manager = {1}"
  "options reconnected_manager = example_options"
  "isSupported (strategy reconnected_manager)"
  "online reconnected_manager = Some True"
  by (simp_all add: reconnected_manager_def retried_manager_fields strategy_callback_def
        handshakeCallbacks_lookup abort_def connected_callback_def clearUnavailableTimer_def
        ensureAborted_def setConnection_def resetActivityCheck_def stopActivityCheck_def
        new_Timer_def example_fields Let_def)

lemma torn_down_manager_fields:
  "state torn_down_manager = ''connecting''"
  "connection torn_down_manager = None"
  "calls torn_down_manager = [CallClose 1]"
  by (simp_all add: torn_down_manager_def reconnected_manager_fields connect_state
        disconnect_calls example_fields)

text \<open>
  C9 at a failing run. The Connection closes and the \<open>closed\<close> callback arms a retry
  timer (timer 2); \<^verbatim>\<open>connect()\<close> is called before it fires, and the new attempt ends
  in a \<open>retry\<close> handshake: \<^verbatim>\<open>retryIn\<close> arms timer 4 while timer 2 is still pending, so
  two retry timers are outstanding and the manager refers to the second only. Timer 4
  fires and the next attempt succeeds; when timer 2 then fires, the healthy Connection
  is closed and the manager is connecting again.
\<close>

theorem retry_timers_overlap:
  "pending (run [Connect, StrategyCallback 0 None handshake_connected, ConnClosed 1, Connect]
      fresh_manager) RetryCallback 2 \<and>
   pending (run [Connect, StrategyCallback 0 None handshake_connected, ConnClosed 1, Connect,
      StrategyCallback 1 None (handshake_of ''retry'')] fresh_manager) RetryCallback 2 \<and>
   pending (run [Connect, StrategyCallback 0 None handshake_connected, ConnClosed 1, Connect,
      StrategyCallback 1 None (handshake_of ''retry'')] fresh_manager) RetryCallback 4 \<and>
   retryTimer (run [Connect, StrategyCallback 0 None handshake_connected, ConnClosed 1, Connect,
      StrategyCallback 1 None (handshake_of ''retry'')] fresh_manager) = Some 4 \<and>
   state (run [Connect, StrategyCallback 0 None handshake_connected, ConnClosed 1, Connect,
      StrategyCallback 1 None (handshake_of ''retry''), TimerFires 4,
      StrategyCallback 2 None handshake_connected] fresh_manager) = ''connected'' \<and>
   calls (run [Connect, StrategyCallback 0 None handshake_connected, ConnClosed 1, Connect,
      StrategyCallback 1 None (handshake_of ''retry''), TimerFires 4,
      StrategyCallback 2 None handshake_connected] fresh_manager) = [] \<and>
   state (run [Connect, StrategyCallback 0 None handshake_connected, ConnClosed 1, Connect,
      StrategyCallback 1 None (handshake_of ''retry''), TimerFires 4,
      StrategyCallback 2 None handshake_connected, TimerFires 2] fresh_manager) =
     ''connecting'' \<and>
   calls (run [Connect, StrategyCallback 0 None handshake_connected, ConnClosed 1, Connect,
      StrategyCallback 1 None (handshake_of ''retry''), TimerFires 4,
      StrategyCallback 2 None handshake_connected, TimerFires 2] fresh_manager) =
     [CallClose 1]"
proof -
  have r1: "run [Connect, StrategyCallback 0 None handshake_connected, ConnClosed 1, Connect]
     fresh_manager = reconnecting_manager"
    by (simp only: run.simps reconnecting_manager_def closed_manager_def connected_manager_def)
  have r2: "run [Connect, StrategyCallback 0 None handshake_connected, ConnClosed 1, Connect,
      StrategyCallback 1 None (handshake_of ''retry'')] fresh_manager = overlapping_manager"
    by (simp only: run.simps overlapping_manager_def reconnecting_manager_def
          closed_manager_def connected_manager_def)
  have r3: "run [Connect, StrategyCallback 0 None handshake_connected, ConnClosed 1, Connect,
      StrategyCallback 1 None (handshake_of ''retry''), TimerFires 4,
      StrategyCallback 2 None handshake_connected] fresh_manager = reconnected_manager"
    by (simp only: run.simps reconnected_manager_def retried_manager_def
          overlapping_manager_def reconnecting_manager_def closed_manager_def
          connected_manager_def)
  have r4: "run [Connect, StrategyCallback 0 None handshake_connected, ConnClosed 1, Connect,
      StrategyCallback 1 None (handshake_of ''retry''), TimerFires 4,
      StrategyCallback 2 None handshake_connected, TimerFires 2] fresh_manager =
      torn_down_manager"
    by (simp only: run.simps torn_down_manager_def reconnected_manager_def
          retried_manager_def overlapping_manager_def reconnecting_manager_def
          closed_manager_def connected_manager_def)
  show ?thesis
    unfolding r1 r2 r3 r4
    by (simp add: pending_def reconnecting_manager_fields overlapping_manager_fields
          reconnected_manager_fields torn_down_manager_fields)
qed


section \<open>Holding a Connection\<close>

subsection \<open>Between events\<close>

lemma pending_update [simp]:
  "pending (w\<lparr>options := a1\<rparr>) k i = pending w k i"
  "pending (w\<lparr>state := a2\<rparr>) k i = pending w k i"
  "pending (w\<lparr>connection := a3\<rparr>) k i = pending w k i"
  "pending (w\<lparr>encrypted := a4\<rparr>) k i = pending w k i"
  "pending (w\<lparr>strategy := a5\<rparr>) k i = pending w k i"
  "pending (w\<lparr>runner := a6\<rparr>) k i = pending w k i"
  "pending (w\<lparr>retryTimer := a7\<rparr>) k i = pending w k i"
  "pending (w\<lparr>unavailableTimer := a8\<rparr>) k i = pending w k i"
  "pending (w\<lparr>activityTimer := a9\<rparr>) k i = pending w k i"
  "pending (w\<lparr>socket_id := b1\<rparr>) k i = pending w k i"
  "pending (w\<lparr>timelineSender := b2\<rparr>) k i = pending w k i"
  "pending (w\<lparr>runners := b3\<rparr>) k i = pending w k i"
  "pending (w\<lparr>online := b4\<rparr>) k i = pending w k i"
  "pending (w\<lparr>events := b5\<rparr>) k i = pending w k i"
  "pending (w\<lparr>observed := c1\<rparr>) k i = pending w k i"
  "pending (w\<lparr>calls := b6\<rparr>) k i = pending w k i"
  "pending (w\<lparr>bound := b7\<rparr>) k i = pending w k i"
  "pending (w\<lparr>debug_log := b8\<rparr>) k i = pending w k i"
  "pending (w\<lparr>timeline_sends := b9\<rparr>) k i = pending w k i"
  by (simp_all add: pending_def)

lemma pending_new_timer [simp]:
  "pending (w\<lparr>timers := timers w @ [\<lparr>delay = d, callback = cb, tstatus = Pending\<rparr>]\<rparr>) k i =
     (pending w k i \<or> i = length (timers w) \<and> k = cb)"
  by (auto simp: pending_def nth_append)

lemma pending_fired [simp]:
  "pending (w\<lparr>timers := (timers w)[j := (timers w ! j)\<lparr>tstatus := Fired\<rparr>]\<rparr>) k i =
     (pending w k i \<and> i \<noteq> j)"
  by (cases "i = j") (auto simp: pending_def)


lemma pending_retryIn [simp]:
  "pending (retryIn d w) k i = (pending w k i \<or> i = length (timers w) \<and> k = RetryCallback)"
  by (simp add: retryIn_def new_Timer_def)

lemma setUnavailableTimer_frame [simp]:
  "state (setUnavailableTimer w) = state w"
  "connection (setUnavailableTimer w) = connection w"
  "unavailableTimer (setUnavailableTimer w) = Some (length (timers w))"
  by (simp_all add: setUnavailableTimer_def new_Timer_def)

lemma pending_setUnavailableTimer [simp]:
  "pending (setUnavailableTimer w) k i =
     (pending w k i \<or> i = length (timers w) \<and> k = UnavailableCallback)"
  by (simp add: setUnavailableTimer_def new_Timer_def)

lemma pending_sendTimeline [simp]: "pending (sendTimeline w) k i = pending w k i"
  by (simp add: sendTimeline_def)

lemma pending_emit [simp]: "pending (emit n d w) k i = pending w k i"
  by (simp add: emit_def Let_def)

lemma emit_frame [simp]:
  "state (emit n d w) = state w"
  "connection (emit n d w) = connection w"
  "unavailableTimer (emit n d w) = unavailableTimer w"
  by (simp_all add: emit_def sendTimeline_def Let_def)








lemma resetActivityCheck_summary [simp]:
  "state (snd (resetActivityCheck w)) = state w"
  "connection (snd (resetActivityCheck w)) = connection w"
  "unavailableTimer (snd (resetActivityCheck w)) = unavailableTimer w"
  "pending (snd (resetActivityCheck w)) UnavailableCallback i =
     (pending w UnavailableCallback i \<and> activityTimer w \<noteq> Some i)"
  by (auto simp: resetActivityCheck_def new_Timer_def Let_def split: option.splits)







lemma new_Timer_frame [simp]:
  "state (snd (new_Timer d cb w)) = state w"
  "connection (snd (new_Timer d cb w)) = connection w"
  "unavailableTimer (snd (new_Timer d cb w)) = unavailableTimer w"
  by (simp_all add: new_Timer_def)

lemma pending_new_Timer [simp]:
  "pending (snd (new_Timer d cb w)) k i = (pending w k i \<or> i = length (timers w) \<and> k = cb)"
  by (simp add: new_Timer_def)

lemma send_event_frame [simp]:
  "state (snd (send_event n d ch w)) = state w"
  "connection (snd (send_event n d ch w)) = connection w"
  "timers (snd (send_event n d ch w)) = timers w"
  "unavailableTimer (snd (send_event n d ch w)) = unavailableTimer w"
  "options (snd (send_event n d ch w)) = options w"
  by (simp_all add: send_event_def split: option.splits)

lemma send_frame [simp]:
  "state (snd (send d w)) = state w"
  "connection (snd (send d w)) = connection w"
  "timers (snd (send d w)) = timers w"
  "unavailableTimer (snd (send d w)) = unavailableTimer w"
  by (simp_all add: send_def split: option.splits)









subsection \<open>At emitted events\<close>

lemma observed_frame [simp]:
  "observed (ensureAborted t w) = observed w"
  "observed (abort r w) = observed w"
  "observed (clearRetryTimer w) = observed w"
  "observed (clearUnavailableTimer w) = observed w"
  "observed (stopActivityCheck w) = observed w"
  "observed (abandonConnection w) = observed w"
  "observed (conn_close c w) = observed w"
  "observed (retryIn d w) = observed w"
  "observed (setUnavailableTimer w) = observed w"
  "observed (snd (new_Timer d cb w)) = observed w"
  "observed (snd (strategy_connect n w)) = observed w"
  "observed (snd (send_event nm x ch w)) = observed w"
  "observed (snd (send x w)) = observed w"
  "observed (sendTimeline w) = observed w"
  "observed (updateStrategy w) = observed w"
  "observed (snd (resetActivityCheck w)) = observed w"
  by (simp_all add: ensureAborted_def abort_def clearRetryTimer_def clearUnavailableTimer_def
        stopActivityCheck_def abandonConnection_def conn_close_def retryIn_def
        setUnavailableTimer_def new_Timer_def strategy_connect_def send_event_def send_def
        sendTimeline_def updateStrategy_def resetActivityCheck_def Let_def
      split: option.splits)

lemma observed_emit [simp]:
  "observed (emit n d w) = observed w @ [(state w, connection w \<noteq> None)]"
  by (simp add: emit_def sendTimeline_def Let_def)

lemma observed_updateState [simp]:
  "observed (updateState ns d w) =
     observed w @
       (if state w = ns then []
        else [(ns, connection w \<noteq> None), (ns, connection w \<noteq> None)])"
  by (simp add: updateState_def emit_def sendTimeline_def Let_def)

lemma observed_disconnect [simp]:
  "observed (disconnect w) =
     observed w @
       (if state w = ''disconnected'' then []
        else [(''disconnected'', connection w \<noteq> None),
              (''disconnected'', connection w \<noteq> None)])"
  by (simp add: disconnect_def abandonConnection_def conn_close_def Let_def
      split: option.splits)

lemma observed_ok_unchanged:
  "observed_ok w \<Longrightarrow> observed w' = observed w \<Longrightarrow> observed_ok w'"
  by (simp add: observed_ok_def)



















section \<open>A retry after refused\<close>

lemma refused_manager_fields:
  "state refused_manager = ''disconnected''"
  "connection refused_manager = None"
  "timers refused_manager =
     [\<lparr>delay = 10000, callback = UnavailableCallback, tstatus = Aborted\<rparr>,
      \<lparr>delay = 120000, callback = ActivityCallback, tstatus = Aborted\<rparr>,
      \<lparr>delay = 1000, callback = RetryCallback, tstatus = Pending\<rparr>,
      \<lparr>delay = 10000, callback = UnavailableCallback, tstatus = Aborted\<rparr>,
      \<lparr>delay = 0, callback = RetryCallback, tstatus = Fired\<rparr>,
      \<lparr>delay = 10000, callback = UnavailableCallback, tstatus = Aborted\<rparr>]"
  "runners refused_manager =
     [\<lparr>retry_count = 0, rstatus = Delivered\<rparr>, \<lparr>retry_count = 0, rstatus = Delivered\<rparr>,
      \<lparr>retry_count = 0, rstatus = Delivered\<rparr>]"
  "runner refused_manager = Some 2"
  "retryTimer refused_manager = Some 4"
  "unavailableTimer refused_manager = Some 5"
  "activityTimer refused_manager = Some 1"
  "options refused_manager = example_options"
  "isSupported (strategy refused_manager)"
  "online refused_manager = Some True"
  by (simp_all add: refused_manager_def retried_manager_fields strategy_callback_def
        handshakeCallbacks_lookup abort_def disconnect_def clearRetryTimer_def
        clearUnavailableTimer_def stopActivityCheck_def ensureAborted_def example_fields
        Let_def)

lemma retrying_after_refused_fields:
  "state retrying_after_refused = ''connecting''"
  "runners retrying_after_refused =
     [\<lparr>retry_count = 0, rstatus = Delivered\<rparr>, \<lparr>retry_count = 0, rstatus = Delivered\<rparr>,
      \<lparr>retry_count = 0, rstatus = Delivered\<rparr>, \<lparr>retry_count = 0, rstatus = InFlight\<rparr>]"
  "runner retrying_after_refused = Some 3"
  by (simp_all add: retrying_after_refused_def refused_manager_fields disconnect_def
        connect_def abort_def clearRetryTimer_def clearUnavailableTimer_def
        stopActivityCheck_def ensureAborted_def strategy_connect_def setUnavailableTimer_def
        new_Timer_def example_fields Let_def)

text \<open>
  C4 at a failing run. The Connection closes and the \<open>closed\<close> callback arms a retry
  timer (timer 2); \<^verbatim>\<open>connect()\<close> is called before it fires, the new attempt ends in a
  \<open>retry\<close> handshake whose timer (timer 4) replaces timer 2 in the manager and fires,
  and the attempt it starts ends in a \<open>refused\<close> handshake. The manager is
  \<open>disconnected\<close>, but \<^verbatim>\<open>disconnect()\<close> has stopped only the timer the manager refers
  to: timer 2 is still pending, and when it fires the manager is connecting again with
  a fourth attempt in flight.
\<close>

theorem refused_then_retry:
  "state (run [Connect, StrategyCallback 0 None handshake_connected, ConnClosed 1, Connect,
      StrategyCallback 1 None (handshake_of ''retry''), TimerFires 4,
      StrategyCallback 2 None (handshake_of ''refused'')] fresh_manager) = ''disconnected'' \<and>
   pending (run [Connect, StrategyCallback 0 None handshake_connected, ConnClosed 1, Connect,
      StrategyCallback 1 None (handshake_of ''retry''), TimerFires 4,
      StrategyCallback 2 None (handshake_of ''refused'')] fresh_manager) RetryCallback 2 \<and>
   state (run [Connect, StrategyCallback 0 None handshake_connected, ConnClosed 1, Connect,
      StrategyCallback 1 None (handshake_of ''retry''), TimerFires 4,
      StrategyCallback 2 None (handshake_of ''refused''), TimerFires 2] fresh_manager) =
     ''connecting'' \<and>
   runners (run [Connect, StrategyCallback 0 None handshake_connected, ConnClosed 1, Connect,
      StrategyCallback 1 None (handshake_of ''retry''), TimerFires 4,
      StrategyCallback 2 None (handshake_of ''refused''), TimerFires 2] fresh_manager) ! 3 =
     \<lparr>retry_count = 0, rstatus = InFlight\<rparr>"
proof -
  have r1: "run [Connect, StrategyCallback 0 None handshake_connected, ConnClosed 1, Connect,
      StrategyCallback 1 None (handshake_of ''retry''), TimerFires 4,
      StrategyCallback 2 None (handshake_of ''refused'')] fresh_manager = refused_manager"
    by (simp only: run.simps refused_manager_def retried_manager_def overlapping_manager_def
          reconnecting_manager_def closed_manager_def connected_manager_def)
  have r2: "run [Connect, StrategyCallback 0 None handshake_connected, ConnClosed 1, Connect,
      StrategyCallback 1 None (handshake_of ''retry''), TimerFires 4,
      StrategyCallback 2 None (handshake_of ''refused''), TimerFires 2] fresh_manager =
      retrying_after_refused"
    by (simp only: run.simps retrying_after_refused_def refused_manager_def
          retried_manager_def overlapping_manager_def reconnecting_manager_def
          closed_manager_def connected_manager_def)
  show ?thesis
    unfolding r1 r2
    by (simp add: pending_def refused_manager_fields retrying_after_refused_fields)
qed

section \<open>The heartbeat after the Connection closed\<close>

lemma silent_ping_manager_fields:
  "fst (step (TimerFires 1) closed_manager) = None"
  "connection silent_ping_manager = None"
  "calls silent_ping_manager = []"
  "timers silent_ping_manager =
     [\<lparr>delay = 10000, callback = UnavailableCallback, tstatus = Aborted\<rparr>,
      \<lparr>delay = 120000, callback = ActivityCallback, tstatus = Fired\<rparr>,
      \<lparr>delay = 1000, callback = RetryCallback, tstatus = Pending\<rparr>,
      \<lparr>delay = 30000, callback = PongCallback, tstatus = Pending\<rparr>]"
  "activityTimer silent_ping_manager = Some 3"
  by (simp_all add: silent_ping_manager_def closed_manager_fields send_event_def new_Timer_def
        example_fields)

lemma pinged_manager_fields:
  "state pinged_manager = ''connected''"
  "connection pinged_manager = Some example_connection"
  "calls pinged_manager = [CallSendEvent 1 ''pusher:ping'' ''{}'' None]"
  "timers pinged_manager =
     [\<lparr>delay = 10000, callback = UnavailableCallback, tstatus = Aborted\<rparr>,
      \<lparr>delay = 120000, callback = ActivityCallback, tstatus = Fired\<rparr>,
      \<lparr>delay = 30000, callback = PongCallback, tstatus = Pending\<rparr>]"
  "activityTimer pinged_manager = Some 2"
  "bound pinged_manager = {1}"
  by (simp_all add: pinged_manager_def connected_manager_fields send_event_def new_Timer_def
        example_fields)

lemma pinged_closed_manager_fields:
  "state pinged_closed_manager = ''connected''"
  "connection pinged_closed_manager = None"
  "calls pinged_closed_manager = [CallSendEvent 1 ''pusher:ping'' ''{}'' None]"
  "timers pinged_closed_manager =
     [\<lparr>delay = 10000, callback = UnavailableCallback, tstatus = Aborted\<rparr>,
      \<lparr>delay = 120000, callback = ActivityCallback, tstatus = Fired\<rparr>,
      \<lparr>delay = 30000, callback = PongCallback, tstatus = Pending\<rparr>,
      \<lparr>delay = 1000, callback = RetryCallback, tstatus = Pending\<rparr>]"
  "activityTimer pinged_closed_manager = Some 2"
  by (simp_all add: pinged_closed_manager_def pinged_manager_fields closed_callback_def
        shouldRetry_def new_Timer_def retryIn_def abandonConnection_def example_fields)

lemma pong_after_closed:
  "fst (step (TimerFires 2) pinged_closed_manager) = Some TypeError"
  "calls (snd (step (TimerFires 2) pinged_closed_manager)) =
     [CallSendEvent 1 ''pusher:ping'' ''{}'' None]"
  by (simp_all add: pinged_closed_manager_fields)

text \<open>
  C7 at two failing runs. The \<open>closed\<close> callback releases the Connection and leaves
  the activity timer pending. In the first run that timer fires next: no
  \<open>pusher:ping\<close> is sent, and a pong timer is armed. In the second run the ping was
  sent before the Connection closed, and the pong timer fires next: the callback raises
  a TypeError and nothing is closed.
\<close>

theorem heartbeat_after_closed:
  "connection (run [Connect, StrategyCallback 0 None handshake_connected, ConnClosed 1]
      fresh_manager) = None \<and>
   pending (run [Connect, StrategyCallback 0 None handshake_connected, ConnClosed 1]
      fresh_manager) ActivityCallback 1 \<and>
   fst (step (TimerFires 1) (run [Connect, StrategyCallback 0 None handshake_connected,
      ConnClosed 1] fresh_manager)) = None \<and>
   calls (run [Connect, StrategyCallback 0 None handshake_connected, ConnClosed 1,
      TimerFires 1] fresh_manager) = [] \<and>
   pending (run [Connect, StrategyCallback 0 None handshake_connected, ConnClosed 1,
      TimerFires 1] fresh_manager) PongCallback 3 \<and>
   calls (run [Connect, StrategyCallback 0 None handshake_connected, TimerFires 1]
      fresh_manager) = [CallSendEvent 1 ''pusher:ping'' ''{}'' None] \<and>
   connection (run [Connect, StrategyCallback 0 None handshake_connected, TimerFires 1,
      ConnClosed 1] fresh_manager) = None \<and>
   pending (run [Connect, StrategyCallback 0 None handshake_connected, TimerFires 1,
      ConnClosed 1] fresh_manager) PongCallback 2 \<and>
   fst (step (TimerFires 2) (run [Connect, StrategyCallback 0 None handshake_connected,
      TimerFires 1, ConnClosed 1] fresh_manager)) = Some TypeError \<and>
   calls (run [Connect, StrategyCallback 0 None handshake_connected, TimerFires 1,
      ConnClosed 1, TimerFires 2] fresh_manager) =
     [CallSendEvent 1 ''pusher:ping'' ''{}'' None]"
proof -
  have r1: "run [Connect, StrategyCallback 0 None handshake_connected, ConnClosed 1]
      fresh_manager = closed_manager"
    by (simp only: run.simps closed_manager_def connected_manager_def)
  have r2: "run [Connect, StrategyCallback 0 None handshake_connected, ConnClosed 1,
      TimerFires 1] fresh_manager = silent_ping_manager"
    by (simp only: run.simps silent_ping_manager_def closed_manager_def connected_manager_def)
  have r3: "run [Connect, StrategyCallback 0 None handshake_connected, TimerFires 1]
      fresh_manager = pinged_manager"
    by (simp only: run.simps pinged_manager_def connected_manager_def)
  have r4: "run [Connect, StrategyCallback 0 None handshake_connected, TimerFires 1,
      ConnClosed 1] fresh_manager = pinged_closed_manager"
    by (simp only: run.simps pinged_closed_manager_def pinged_manager_def
          connected_manager_def)
  have r5: "run [Connect, StrategyCallback 0 None handshake_connected, TimerFires 1,
      ConnClosed 1, TimerFires 2] fresh_manager =
      snd (step (TimerFires 2) pinged_closed_manager)"
    by (simp only: run.simps pinged_closed_manager_def pinged_manager_def
          connected_manager_def)
  show ?thesis
    unfolding r1 r2 r3 r4 r5 silent_ping_manager_fields pong_after_closed
    by (simp add: pending_def closed_manager_fields silent_ping_manager_fields
          pinged_manager_fields pinged_closed_manager_fields del: step.simps)
qed


end
